theory Spec2Isabelle
  imports Complex_Main "HOL-Library.Char_ord" "HOL-Library.List_Lexorder" "HOL-Library.Option_ord"
begin

section \<open>Tables, cells and errors\<close>

text \<open>
  The dashboard (\<^verbatim>\<open>ITMO_lastTask/plotlyDash.py\<close>) works on pandas tables. A table cell is one
  of the Python values the code meets: a float (a number or not-a-number), a string, a
  boolean, a \<^verbatim>\<open>datetime.date\<close> (days since 1970-01-01), a pandas timestamp (nanoseconds
  since the epoch), the missing timestamp \<^verbatim>\<open>NaT\<close>, \<^verbatim>\<open>None\<close>, or a dictionary (the nested
  last-hour-activity field, whose entries are numeric or missing).

  Floats are modelled by real numbers together with the one value \<open>NaN\<close>: rounding,
  infinities and the fact that a floating-point not-a-number is unequal to itself are
  not represented.
\<close>

datatype cell =
    NaN
  | Num real
  | Str string
  | Bool bool
  | PyDate int
  | Stamp int
  | NaT
  | PyNone
  | Dict "(string \<times> real option) list"

text \<open>
  Exceptions are values. \<open>Unsupported\<close> is no Python exception: it marks an input on
  which pandas leaves the fragment that is modelled here (each use says why).
\<close>

datatype error =
    KeyError string
  | ValueError
  | TypeError
  | AttributeError
  | IndexError
  | ZeroDivisionError
  | MergeError
  | FileNotFoundError string
  | Unsupported

text \<open>
  A table has an ordered list of column names and a list of rows; a row gives the cell of
  every column (what it gives outside the table's columns is never read). The row index
  of every table is the default one (positions \<open>0, 1, \<dots>\<close>).
\<close>

type_synonym row = "string \<Rightarrow> cell"

record frame =
  columns :: "string list"
  rows :: "row list"

definition DataFrame :: frame where
  "DataFrame = \<lparr>columns = [], rows = []\<rparr>"

text \<open>\<^verbatim>\<open>df.empty\<close>: one of the two axes has length zero.\<close>

definition df_empty :: "frame \<Rightarrow> bool" where
  "df_empty f \<longleftrightarrow> columns f = [] \<or> rows f = []"

subsection \<open>Sequencing of computations that may raise\<close>

definition bnd :: "error + 'a \<Rightarrow> ('a \<Rightarrow> error + 'b) \<Rightarrow> error + 'b" where
  "bnd m f = (case m of Inl e \<Rightarrow> Inl e | Inr x \<Rightarrow> f x)"

fun mapM :: "('a \<Rightarrow> error + 'b) \<Rightarrow> 'a list \<Rightarrow> error + 'b list" where
  "mapM f [] = Inr []"
| "mapM f (x # xs) =
     (case f x of
        Inl e \<Rightarrow> Inl e
      | Inr y \<Rightarrow> (case mapM f xs of Inl e \<Rightarrow> Inl e | Inr ys \<Rightarrow> Inr (y # ys)))"

subsection \<open>Column and row access\<close>

text \<open>\<^verbatim>\<open>df[c]\<close> raises \<^verbatim>\<open>KeyError\<close> when the table has no column \<open>c\<close>.\<close>

definition require :: "string \<Rightarrow> frame \<Rightarrow> error + unit" where
  "require c f = (if c \<in> set (columns f) then Inr () else Inl (KeyError c))"

text \<open>\<^verbatim>\<open>row[c]\<close> inside \<^verbatim>\<open>apply(..., axis=1)\<close>: the row is indexed by the table's columns.\<close>

definition row_get :: "string list \<Rightarrow> row \<Rightarrow> string \<Rightarrow> error + cell" where
  "row_get cols r c = (if c \<in> set cols then Inr (r c) else Inl (KeyError c))"

text \<open>
  \<^verbatim>\<open>df[c] = values\<close>, the values being computed row by row: an existing column is
  overwritten, a new one is appended on the right.
\<close>

definition set_columns :: "string \<Rightarrow> string list \<Rightarrow> string list" where
  "set_columns c cols = (if c \<in> set cols then cols else cols @ [c])"

definition assign :: "string \<Rightarrow> (row \<Rightarrow> error + cell) \<Rightarrow> frame \<Rightarrow> error + frame" where
  "assign c g f =
     bnd (mapM (\<lambda>r. bnd (g r) (\<lambda>v. Inr (r(c := v)))) (rows f))
       (\<lambda>rs. Inr \<lparr>columns = set_columns c (columns f), rows = rs\<rparr>)"

text \<open>
  \<^verbatim>\<open>df[c] = df.apply(g, axis=1)\<close>. On a table without rows pandas calls \<open>g\<close> once, on a row
  that holds not-a-number in every column, to decide the shape of the result: when that
  call returns a value the result is an empty column; when it raises, pandas returns a
  copy of the table and what the assignment then does depends on the table's shape,
  which is not modelled.
\<close>

definition assign_apply :: "string \<Rightarrow> (row \<Rightarrow> error + cell) \<Rightarrow> frame \<Rightarrow> error + frame" where
  "assign_apply c g f =
     (if rows f = [] then
        (case g (\<lambda>_. NaN) of
           Inl e \<Rightarrow> Inl Unsupported
         | Inr v \<Rightarrow> Inr \<lparr>columns = set_columns c (columns f), rows = []\<rparr>)
      else assign c g f)"

subsection \<open>Missing values and arithmetic\<close>

text \<open>\<^verbatim>\<open>pd.isna\<close> on a scalar.\<close>

fun isna :: "cell \<Rightarrow> bool" where
  "isna NaN = True"
| "isna NaT = True"
| "isna PyNone = True"
| "isna _ = False"

text \<open>The operand of a float operation: numbers and booleans count, not-a-number is
  missing, every other value raises \<^verbatim>\<open>TypeError\<close>.\<close>

fun arith_val :: "cell \<Rightarrow> error + real option" where
  "arith_val NaN = Inr None"
| "arith_val (Num x) = Inr (Some x)"
| "arith_val (Bool b) = Inr (Some (if b then 1 else 0))"
| "arith_val _ = Inl TypeError"

text \<open>The number a cell holds, if it holds one; a boolean counts as 0 or 1.\<close>

fun cell_number :: "cell \<Rightarrow> real option" where
  "cell_number (Num x) = Some x"
| "cell_number (Bool b) = Some (if b then 1 else 0)"
| "cell_number _ = None"

text \<open>
  Membership in a list of values (\<^verbatim>\<open>isin\<close>) compares as Python does when it hashes:
  equal values match, and so do a boolean and the number 0 or 1.
\<close>

definition py_eq :: "cell \<Rightarrow> cell \<Rightarrow> bool" where
  "py_eq a b \<longleftrightarrow>
     a = b \<or> (case cell_number a of Some x \<Rightarrow> cell_number b = Some x | None \<Rightarrow> False)"

text \<open>\<^verbatim>\<open>x == 0\<close> and \<^verbatim>\<open>x == True\<close> on a scalar.\<close>

definition eq_zero :: "cell \<Rightarrow> bool" where
  "eq_zero c \<longleftrightarrow> c = Num 0 \<or> c = Bool False"

definition eq_true :: "cell \<Rightarrow> bool" where
  "eq_true c \<longleftrightarrow> c = Bool True \<or> c = Num 1"

definition fdiv :: "cell \<Rightarrow> cell \<Rightarrow> error + cell" where
  "fdiv a b =
     bnd (arith_val a) (\<lambda>x. bnd (arith_val b) (\<lambda>y.
       case (x, y) of
         (Some u, Some v) \<Rightarrow> (if v = 0 then Inl ZeroDivisionError else Inr (Num (u / v)))
       | _ \<Rightarrow> Inr NaN))"

definition fmul :: "cell \<Rightarrow> cell \<Rightarrow> error + cell" where
  "fmul a b =
     bnd (arith_val a) (\<lambda>x. bnd (arith_val b) (\<lambda>y.
       case (x, y) of (Some u, Some v) \<Rightarrow> Inr (Num (u * v)) | _ \<Rightarrow> Inr NaN))"

subsection \<open>Timestamps\<close>

definition ns_per_second :: int where
  "ns_per_second = 1000000000"

definition ns_per_hour :: int where
  "ns_per_hour = 3600 * ns_per_second"

definition ns_per_day :: int where
  "ns_per_day = 86400 * ns_per_second"

text \<open>
  \<^verbatim>\<open>pd.to_datetime\<close> on one cell. Text and numbers would go through the library's
  parser, which is not modelled.
\<close>

fun to_datetime :: "cell \<Rightarrow> error + cell" where
  "to_datetime (Stamp t) = Inr (Stamp t)"
| "to_datetime (PyDate d) = Inr (Stamp (d * ns_per_day))"
| "to_datetime NaT = Inr NaT"
| "to_datetime NaN = Inr NaT"
| "to_datetime PyNone = Inr NaT"
| "to_datetime (Str s) = Inl Unsupported"
| "to_datetime (Num x) = Inl Unsupported"
| "to_datetime (Bool b) = Inl TypeError"
| "to_datetime (Dict d) = Inl TypeError"

text \<open>The \<^verbatim>\<open>.dt\<close> accessors used by the code; they exist on timestamp columns only.\<close>

fun dt_floor_s :: "cell \<Rightarrow> error + cell" where
  "dt_floor_s (Stamp t) = Inr (Stamp (t div ns_per_second * ns_per_second))"
| "dt_floor_s NaT = Inr NaT"
| "dt_floor_s _ = Inl AttributeError"

fun dt_date :: "cell \<Rightarrow> error + cell" where
  "dt_date (Stamp t) = Inr (PyDate (t div ns_per_day))"
| "dt_date NaT = Inr NaT"
| "dt_date _ = Inl AttributeError"

fun dt_hour :: "cell \<Rightarrow> error + cell" where
  "dt_hour (Stamp t) = Inr (Num (real_of_int ((t div ns_per_hour) mod 24)))"
| "dt_hour NaT = Inr NaN"
| "dt_hour _ = Inl AttributeError"

definition day_names :: "string list" where
  "day_names = [''Monday'', ''Tuesday'', ''Wednesday'', ''Thursday'', ''Friday'',
                ''Saturday'', ''Sunday'']"

text \<open>1970-01-01 was a Thursday.\<close>

fun dt_day_name :: "cell \<Rightarrow> error + cell" where
  "dt_day_name (Stamp t) = Inr (Str (day_names ! nat ((t div ns_per_day + 3) mod 7)))"
| "dt_day_name NaT = Inr NaN"
| "dt_day_name _ = Inl AttributeError"

section \<open>The preprocessor\<close>

subsection \<open>Flattening the last-hour activity\<close>

definition activity_names :: "string list" where
  "activity_names = [''num_transactions'', ''total_amount'', ''unique_merchants'',
                     ''unique_countries'', ''max_single_amount'']"

definition activity_defaults :: "(string \<times> real option) list" where
  "activity_defaults = map (\<lambda>k. (k, None)) activity_names"

fun safe_extract :: "cell \<Rightarrow> cell" where
  "safe_extract (Dict d) = Dict d"
| "safe_extract _ = Dict activity_defaults"

text \<open>
  \<^verbatim>\<open>pd.json_normalize\<close> on a column of flat dictionaries: one column per key, in the order
  in which the keys first appear (\<open>first_seen\<close> drops the later occurrences); a key that a
  record lacks is not-a-number there.
\<close>

fun dict_items :: "cell \<Rightarrow> (string \<times> real option) list" where
  "dict_items (Dict d) = d"
| "dict_items _ = []"

definition dict_row :: "(string \<times> real option) list \<Rightarrow> row" where
  "dict_row d = (\<lambda>k. case map_of d k of Some (Some x) \<Rightarrow> Num x | _ \<Rightarrow> NaN)"

definition first_seen :: "'a list \<Rightarrow> 'a list" where
  "first_seen xs = rev (remdups (rev xs))"

definition json_normalize :: "cell list \<Rightarrow> frame" where
  "json_normalize ds =
     \<lparr>columns = first_seen (concat (map (\<lambda>d. map fst (dict_items d)) ds)),
      rows = map (\<lambda>d. dict_row (dict_items d)) ds\<rparr>"

text \<open>
  \<^verbatim>\<open>pd.concat([a, b], axis=1)\<close> of two tables with the same number of rows. pandas keeps
  both columns when a name occurs on both sides; tables with a repeated column name are
  not modelled.
\<close>

definition concat_columns :: "frame \<Rightarrow> frame \<Rightarrow> error + frame" where
  "concat_columns a b =
     (if set (columns a) \<inter> set (columns b) \<noteq> {} then Inl Unsupported
      else Inr \<lparr>columns = columns a @ columns b,
                rows = map (\<lambda>(r, s). (\<lambda>c. if c \<in> set (columns b) then s c else r c))
                         (zip (rows a) (rows b))\<rparr>)"

subsection \<open>Joining the exchange rates\<close>

text \<open>
  \<^verbatim>\<open>df2.reset_index()\<close>: the default index becomes a column on the left, named \<^verbatim>\<open>index\<close>, or
  \<^verbatim>\<open>level_0\<close> when \<^verbatim>\<open>index\<close> is taken.
\<close>

definition reset_index :: "frame \<Rightarrow> error + frame" where
  "reset_index f =
     (let name = (if ''index'' \<in> set (columns f) then ''level_0'' else ''index'') in
      if name \<in> set (columns f) then Inl ValueError
      else Inr \<lparr>columns = name # columns f,
                rows = map (\<lambda>(i, r). r(name := Num (real i))) (enumerate 0 (rows f))\<rparr>)"

text \<open>
  \<^verbatim>\<open>left.merge(right, how='left', on=key)\<close>: every row of \<open>left\<close>, in order, once for each
  row of \<open>right\<close> with the same key, and once with not-a-number in the columns of \<open>right\<close>
  when no row of \<open>right\<close> has that key. Keys are compared as values. When another column
  name occurs on both sides pandas renames both; here the caller renames first, and
  tables that would still clash are not modelled.
\<close>

definition join_row :: "string list \<Rightarrow> row \<Rightarrow> row option \<Rightarrow> row" where
  "join_row rcols l ro =
     (\<lambda>c. if c \<in> set rcols then (case ro of Some r \<Rightarrow> r c | None \<Rightarrow> NaN) else l c)"

definition merge_left :: "frame \<Rightarrow> frame \<Rightarrow> string \<Rightarrow> error + frame" where
  "merge_left left right key =
     (if key \<notin> set (columns left) \<or> key \<notin> set (columns right) then Inl (KeyError key)
      else
        let rcols = filter (\<lambda>c. c \<noteq> key) (columns right) in
        if set (columns left) \<inter> set rcols \<noteq> {} then Inl Unsupported
        else Inr \<lparr>columns = columns left @ rcols,
                  rows = concat (map (\<lambda>l.
                    let ms = filter (\<lambda>r. r key = l key) (rows right) in
                    if ms = [] then [join_row rcols l None]
                    else map (\<lambda>r. join_row rcols l (Some r)) ms) (rows left))\<rparr>)"

subsection \<open>Conversion to USD\<close>

text \<open>
  \<^verbatim>\<open>curr in df2.columns\<close>: a string is looked up among the column names, a dictionary
  cannot be hashed, and any other value is not a column name.
\<close>

definition convert_to_usd :: "string list \<Rightarrow> string list \<Rightarrow> row \<Rightarrow> error + cell" where
  "convert_to_usd cols df2_columns r =
     bnd (row_get cols r ''currency'') (\<lambda>curr.
       case curr of
         Str s \<Rightarrow>
           if s \<in> set df2_columns then
             bnd (row_get cols r s) (\<lambda>rate.
               if isna rate \<or> eq_zero rate then Inr NaN
               else bnd (row_get cols r ''amount'') (\<lambda>a. fdiv a rate))
           else Inr NaN
       | Dict d \<Rightarrow> Inl TypeError
       | _ \<Rightarrow> Inr NaN)"

subsection \<open>Objects and files\<close>

text \<open>
  Tables are objects: a variable holds a reference, and an assignment to a column changes
  the object for everyone who holds it. The store maps references to tables; the
  references below \<open>nxt\<close> are the ones in use. The file system maps a path to the table
  stored in that file, and \<open>reads\<close> records the paths that were read, in order.
  Objects that a function creates and drops before it returns are kept as plain values;
  only the tables it receives and the ones it returns live in the store.
\<close>

type_synonym ref = nat

record world =
  heap :: "ref \<Rightarrow> frame"
  nxt :: ref
  files :: "string \<rightharpoonup> frame"
  reads :: "string list"

definition alloc :: "frame \<Rightarrow> world \<Rightarrow> ref \<times> world" where
  "alloc f w = (nxt w, w\<lparr>heap := (heap w)(nxt w := f), nxt := Suc (nxt w)\<rparr>)"

definition store :: "ref \<Rightarrow> frame \<Rightarrow> world \<Rightarrow> world" where
  "store p f w = w\<lparr>heap := (heap w)(p := f)\<rparr>"

definition read_parquet :: "string \<Rightarrow> world \<Rightarrow> (error + ref) \<times> world" where
  "read_parquet path w =
     (let w1 = w\<lparr>reads := reads w @ [path]\<rparr> in
      case files w path of
        None \<Rightarrow> (Inl (FileNotFoundError path), w1)
      | Some f \<Rightarrow> (let (p, w2) = alloc f w1 in (Inr p, w2)))"

subsection \<open>\<^verbatim>\<open>preprocess_data\<close>\<close>

definition rate_file :: string where
  "rate_file = ''historical_currency_exchange.parquet''"

text \<open>Line 31: \<^verbatim>\<open>pd.to_datetime(df['timestamp']).dt.floor('s')\<close>, the new value of the column.\<close>

definition floor_timestamp :: "frame \<Rightarrow> error + frame" where
  "floor_timestamp f =
     bnd (require ''timestamp'' f) (\<lambda>_.
       assign ''timestamp'' (\<lambda>r. bnd (to_datetime (r ''timestamp'')) dt_floor_s) f)"

text \<open>Lines 34 to 39: the flattened activity columns and the date, on a new table.\<close>

definition flatten_activity :: "frame \<Rightarrow> error + frame" where
  "flatten_activity f =
     bnd (require ''last_hour_activity'' f) (\<lambda>_.
       let df_last_hour = map (\<lambda>r. safe_extract (r ''last_hour_activity'')) (rows f);
           df_last_hour_df = json_normalize df_last_hour
       in bnd (concat_columns f df_last_hour_df) (\<lambda>f1.
            bnd (require ''timestamp'' f1) (\<lambda>_.
              assign ''date'' (\<lambda>r. dt_date (r ''timestamp'')) f1)))"

text \<open>Lines 45 to 62: the join with the rates, the USD amount, hour and weekday.\<close>

definition enrich :: "frame \<Rightarrow> frame \<Rightarrow> error + frame" where
  "enrich f df2 =
     bnd (reset_index df2) (\<lambda>right.
     bnd (merge_left f right ''date'') (\<lambda>m.
     bnd (assign_apply ''amount_usd'' (convert_to_usd (columns m) (columns df2)) m) (\<lambda>m1.
     bnd (require ''timestamp'' m1) (\<lambda>_.
     bnd (assign ''hour'' (\<lambda>r. dt_hour (r ''timestamp'')) m1) (\<lambda>m2.
     assign ''weekday'' (\<lambda>r. dt_day_name (r ''timestamp'')) m2)))))"

text \<open>
  The function takes the reference of the raw table and returns the references of the
  enriched table and of the rate table. The assignment of line 31 changes the table it
  was given; everything after line 36 works on new tables. An exception leaves the
  store as it is at that point.
\<close>

definition preprocess_data :: "ref \<Rightarrow> world \<Rightarrow> (error + ref \<times> ref) \<times> world" where
  "preprocess_data df w =
     (if df_empty (heap w df) then
        (let (e, w1) = alloc DataFrame w in (Inr (df, e), w1))
      else
        case floor_timestamp (heap w df) of
          Inl err \<Rightarrow> (Inl err, w)
        | Inr f1 \<Rightarrow>
            let w1 = store df f1 w in
            (case flatten_activity f1 of
               Inl err \<Rightarrow> (Inl err, w1)
             | Inr f2 \<Rightarrow>
                 (case read_parquet rate_file w1 of
                    (Inl err, w2) \<Rightarrow> (Inl err, w2)
                  | (Inr df2, w2) \<Rightarrow>
                      (case enrich f2 (heap w2 df2) of
                         Inl err \<Rightarrow> (Inl err, w2)
                       | Inr out \<Rightarrow>
                           (let (p, w3) = alloc out w2 in (Inr (p, df2), w3))))))"

section \<open>The filter engine\<close>

text \<open>
  A filter is \<^verbatim>\<open>None\<close> or a list of allowed values; \<^verbatim>\<open>None\<close> and the empty list do not
  restrict.
\<close>

definition isin_filter :: "string \<Rightarrow> cell list option \<Rightarrow> frame \<Rightarrow> error + frame" where
  "isin_filter c vals dff =
     (case vals of
        None \<Rightarrow> Inr dff
      | Some vs \<Rightarrow>
          if vs = [] then Inr dff
          else bnd (require c dff) (\<lambda>_.
                 Inr (dff\<lparr>rows := filter (\<lambda>r. list_ex (py_eq (r c)) vs) (rows dff)\<rparr>)))"

definition apply_filters ::
  "cell list option \<Rightarrow> cell list option \<Rightarrow> cell list option \<Rightarrow> cell list option \<Rightarrow>
   cell list option \<Rightarrow> cell list option \<Rightarrow> frame \<Rightarrow> error + frame" where
  "apply_filters vendor_cats channels countries cities is_weekend_val is_fraud_val dff =
     bnd (isin_filter ''vendor_category'' vendor_cats dff) (\<lambda>d1.
     bnd (isin_filter ''channel'' channels d1) (\<lambda>d2.
     bnd (isin_filter ''country'' countries d2) (\<lambda>d3.
     bnd (isin_filter ''city'' cities d3) (\<lambda>d4.
     bnd (isin_filter ''is_weekend'' is_weekend_val d4) (\<lambda>d5.
     isin_filter ''is_fraud'' is_fraud_val d5)))))"

text \<open>A filter that is absent or empty.\<close>

definition no_restriction :: "cell list option \<Rightarrow> bool" where
  "no_restriction vals \<longleftrightarrow> vals = None \<or> vals = Some []"

text \<open>
  Line 654, \<^verbatim>\<open>if target_currency and target_currency != 'USD' and not df2.empty\<close>: the
  currency to convert to, if the branch is taken.
\<close>

definition conversion_target :: "string option \<Rightarrow> frame \<Rightarrow> string option" where
  "conversion_target target_currency df2 =
     (case target_currency of
        None \<Rightarrow> None
      | Some t \<Rightarrow> if t \<noteq> [] \<and> t \<noteq> ''USD'' \<and> \<not> df_empty df2 then Some t else None)"

text \<open>\<^verbatim>\<open>f['date'] = pd.to_datetime(f['date'])\<close>, the new value of the table.\<close>

definition date_to_datetime :: "frame \<Rightarrow> error + frame" where
  "date_to_datetime f =
     bnd (require ''date'' f) (\<lambda>_. assign ''date'' (\<lambda>r. to_datetime (r ''date'')) f)"

text \<open>\<^verbatim>\<open>df2[['date', target_currency]]\<close>; asking for the date column twice gives a table
  with a repeated column name, which is not modelled.\<close>

definition select_rate :: "string \<Rightarrow> frame \<Rightarrow> error + frame" where
  "select_rate t df2 =
     (if ''date'' \<notin> set (columns df2) then Inl (KeyError ''date'')
      else if t \<notin> set (columns df2) then Inl (KeyError t)
      else if t = ''date'' then Inl Unsupported
      else Inr \<lparr>columns = [''date'', t], rows = rows df2\<rparr>)"

definition rename_column :: "string \<Rightarrow> string \<Rightarrow> frame \<Rightarrow> frame" where
  "rename_column a b f =
     \<lparr>columns = map (\<lambda>c. if c = a then b else c) (columns f),
      rows = map (\<lambda>r. r(b := r a)) (rows f)\<rparr>"

definition target_rate :: "string \<Rightarrow> string" where
  "target_rate t = t @ ''_target_rate''"

text \<open>
  Line 658, the merge with \<^verbatim>\<open>suffixes=('', '_target_rate')\<close>: the rate column gets the
  suffix exactly when the left table already has a column of the currency's name, and
  pandas refuses a suffix that produces a name the left table has.
\<close>

definition merge_target :: "frame \<Rightarrow> frame \<Rightarrow> string \<Rightarrow> error + frame" where
  "merge_target dff right t =
     (if t \<in> set (columns dff) then
        (if target_rate t \<in> set (columns dff) then Inl MergeError
         else merge_left dff (rename_column t (target_rate t) right) ''date'')
      else merge_left dff right ''date'')"

text \<open>The function applied to every row in lines 660 to 663.\<close>

definition to_target :: "string list \<Rightarrow> string \<Rightarrow> row \<Rightarrow> error + cell" where
  "to_target cols t r =
     bnd (row_get cols r (target_rate t)) (\<lambda>rate.
       if \<not> isna rate then bnd (row_get cols r ''amount_usd'') (\<lambda>a. fmul a rate)
       else Inr NaN)"

definition convert_target :: "frame \<Rightarrow> frame \<Rightarrow> string \<Rightarrow> error + frame" where
  "convert_target dff df2 t =
     bnd (select_rate t df2) (\<lambda>right.
     bnd (merge_target dff right t) (\<lambda>temp_df.
     assign_apply ''amount_converted'' (to_target (columns temp_df) t) temp_df))"

text \<open>Line 666: \<^verbatim>\<open>dff['amount_converted'] = dff['amount_usd']\<close>.\<close>

definition copy_amount_usd :: "frame \<Rightarrow> error + frame" where
  "copy_amount_usd dff =
     bnd (require ''amount_usd'' dff) (\<lambda>_.
       assign ''amount_converted'' (\<lambda>r. Inr (r ''amount_usd'')) dff)"

text \<open>
  \<^verbatim>\<open>filter_data\<close> takes the references of the record table and of the rate table and
  returns the reference of the filtered table. \<^verbatim>\<open>df.copy()\<close> and every filter produce a
  new table, so the assignments to \<^verbatim>\<open>dff\<close> never reach \<^verbatim>\<open>df\<close>; the assignment of line 656
  is made on \<^verbatim>\<open>df2\<close> itself.
\<close>

definition filter_data ::
  "ref \<Rightarrow> ref \<Rightarrow> cell list option \<Rightarrow> cell list option \<Rightarrow> cell list option \<Rightarrow>
   cell list option \<Rightarrow> cell list option \<Rightarrow> cell list option \<Rightarrow> string option \<Rightarrow>
   world \<Rightarrow> (error + ref) \<times> world" where
  "filter_data df df2 vendor_cats channels countries cities is_weekend_val is_fraud_val
       target_currency w =
     (case apply_filters vendor_cats channels countries cities is_weekend_val is_fraud_val
             (heap w df) of
        Inl err \<Rightarrow> (Inl err, w)
      | Inr dff \<Rightarrow>
          (case conversion_target target_currency (heap w df2) of
             Some t \<Rightarrow>
               (case date_to_datetime dff of
                  Inl err \<Rightarrow> (Inl err, w)
                | Inr dff1 \<Rightarrow>
                    (case date_to_datetime (heap w df2) of
                       Inl err \<Rightarrow> (Inl err, w)
                     | Inr rates \<Rightarrow>
                         let w1 = store df2 rates w in
                         (case convert_target dff1 rates t of
                            Inl err \<Rightarrow> (Inl err, w1)
                          | Inr temp_df \<Rightarrow>
                              (let (p, w2) = alloc temp_df w1 in (Inr p, w2)))))
           | None \<Rightarrow>
               (case copy_amount_usd dff of
                  Inl err \<Rightarrow> (Inl err, w)
                | Inr out \<Rightarrow> (let (p, w1) = alloc out w in (Inr p, w1)))))"

section \<open>Aggregations\<close>

text \<open>
  \<^verbatim>\<open>sum\<close>, \<^verbatim>\<open>mean\<close> and \<^verbatim>\<open>count\<close> of a column skip missing values. Columns that hold anything
  but floats and booleans are not modelled.
\<close>

fun float_val :: "cell \<Rightarrow> error + real option" where
  "float_val NaN = Inr None"
| "float_val (Num x) = Inr (Some x)"
| "float_val (Bool b) = Inr (Some (if b then 1 else 0))"
| "float_val _ = Inl Unsupported"

definition present :: "cell list \<Rightarrow> error + real list" where
  "present cs =
     bnd (mapM float_val cs) (\<lambda>os.
       Inr (concat (map (\<lambda>v. case v of None \<Rightarrow> [] | Some x \<Rightarrow> [x]) os)))"

definition series_sum :: "cell list \<Rightarrow> error + cell" where
  "series_sum cs = bnd (present cs) (\<lambda>xs. Inr (Num (sum_list xs)))"

definition series_mean :: "cell list \<Rightarrow> error + cell" where
  "series_mean cs =
     bnd (present cs) (\<lambda>xs.
       Inr (if xs = [] then NaN else Num (sum_list xs / real (length xs))))"

definition column :: "string \<Rightarrow> frame \<Rightarrow> error + cell list" where
  "column c f = bnd (require c f) (\<lambda>_. Inr (map (\<lambda>r. r c) (rows f)))"

subsection \<open>The four widgets\<close>

text \<open>Lines 725 to 728 of \<^verbatim>\<open>update_graphs\<close>; the formatting into text is left out.\<close>

record widgets =
  total_transactions :: nat
  total_fraud_amount :: cell
  fraud_percentage :: cell
  avg_transaction_amount :: cell

definition widget_values :: "frame \<Rightarrow> error + widgets" where
  "widget_values dff =
     (let n = length (rows dff) in
      bnd (if ''is_fraud'' \<in> set (columns dff)
           then bnd (column ''amount_converted''
                       (dff\<lparr>rows := filter (\<lambda>r. eq_true (r ''is_fraud'')) (rows dff)\<rparr>))
                  series_sum
           else Inr (Num 0)) (\<lambda>fraud_amount.
      bnd (if n > 0 \<and> ''is_fraud'' \<in> set (columns dff)
           then bnd (column ''is_fraud'' dff) (\<lambda>cs.
                  bnd (series_mean cs) (\<lambda>m. fmul m (Num 100)))
           else Inr (Num 0)) (\<lambda>percentage.
      bnd (if n > 0 then bnd (column ''amount_converted'' dff) series_mean
           else Inr (Num 0)) (\<lambda>average.
      Inr \<lparr>total_transactions = n, total_fraud_amount = fraud_amount,
           fraud_percentage = percentage, avg_transaction_amount = average\<rparr>))))"

subsection \<open>What the callback returns\<close>

text \<open>
  \<^verbatim>\<open>update_graphs\<close> returns a tuple, and the framework hands its components, by position, to
  the outputs declared in lines 673 to 695. A component is the empty figure, one of the
  charts (named here by the variable that holds it; building the charts is not
  modelled), or the text of a widget, which is represented by the value it prints.
\<close>

datatype component = EmptyFigure | Chart string | Count nat | Amount cell

definition output_ids :: "string list" where
  "output_ids =
     [''fraud_overview'', ''fraud_ratio_by_category'', ''fraud_vs_weekend'',
      ''fraud_by_hour'', ''fraud_by_device'', ''transaction_amounts'',
      ''transactions_counts'', ''last_hour_activity_correlation'',
      ''amount_usd_by_country'', ''currency_usage'',
      ''widget-total-transactions'', ''widget-total-fraud-amount'',
      ''widget-fraud-percentage'', ''widget-avg-transaction-amount'',
      ''fraud_by_vendor_type'', ''fraud_by_card_type'', ''fraud_by_card_present'',
      ''fraud_outside_home_country'', ''fraud_high_risk_vendor'', ''fraud_by_city_size'',
      ''top_fraudulent_vendors'', ''top_fraudulent_cities'', ''top_fraudulent_customers'']"

definition widget_outputs :: "widgets \<Rightarrow> component list" where
  "widget_outputs v =
     [Count (total_transactions v), Amount (total_fraud_amount v),
      Amount (fraud_percentage v), Amount (avg_transaction_amount v)]"

text \<open>Lines 737 to 757, the return for an empty table, and lines 1029 to 1035.\<close>

definition update_graphs_return :: "frame \<Rightarrow> error + component list" where
  "update_graphs_return dff =
     bnd (widget_values dff) (\<lambda>v.
       if df_empty dff then Inr (replicate 19 EmptyFigure @ widget_outputs v)
       else Inr (map Chart [''fig_overview'', ''fig_fraud_cat'', ''fig_fraud_weekend'',
                   ''fig_fraud_hour'', ''fig_fraud_device'', ''fig_amounts'',
                   ''fig_tx_counts'', ''fig_corr'', ''fig_amount_usd_by_country'',
                   ''fig_currency_usage'']
                 @ widget_outputs v
                 @ map Chart [''fig_vendor_type_fraud'', ''fig_card_type_fraud'',
                   ''fig_card_present_fraud'', ''fig_outside_home_fraud'',
                   ''fig_high_risk_vendor_fraud'', ''fig_fraud_city_size'',
                   ''fig_top_fraud_vendors'', ''fig_top_fraud_cities'',
                   ''fig_top_fraud_customers'']))"

text \<open>The component that the output \<open>name\<close> receives.\<close>

definition output_of :: "component list \<Rightarrow> string \<Rightarrow> component option" where
  "output_of outs name = map_of (zip output_ids outs) name"

subsection \<open>Fraud ratio by device\<close>

text \<open>
  Lines 816 to 820. \<^verbatim>\<open>groupby('device')\<close> makes one group for every device name, in
  increasing order of the names, and leaves out rows without a device; devices that are
  not text are not modelled. \<open>fraud_sum\<close> and \<open>fraud_count\<close> are the columns \<^verbatim>\<open>sum\<close> and
  \<^verbatim>\<open>count\<close>: the sum of the fraud flags of the group and the number of its rows whose flag
  is not missing.
\<close>

record device_stat =
  device :: string
  fraud_sum :: real
  fraud_count :: nat
  fraud_ratio :: "real option"





text \<open>
  \<^verbatim>\<open>sort_values(by='fraud_ratio', ascending=False)\<close>: pandas reverses the rows, sorts them
  in increasing order and reverses the result; a missing ratio comes last. Its default
  sorting algorithm does not promise an order among equal ratios; the stable sort used
  here keeps them in the order of the groups.
\<close>

definition ratio_key :: "device_stat \<Rightarrow> real option" where
  "ratio_key g = fraud_ratio g"

definition sort_by_ratio_desc :: "device_stat list \<Rightarrow> device_stat list" where
  "sort_by_ratio_desc gs = rev (sort_key ratio_key (rev gs))"


section \<open>The sampler\<close>

text \<open>
  Lines 68 to 74. The transaction file is its list of row groups. \<^verbatim>\<open>random.sample\<close>
  belongs to the Python library; \<open>random_sample n k sel\<close> says that \<open>sel\<close> is a possible
  result of \<^verbatim>\<open>random.sample(range(n), k)\<close>: \<open>k\<close> different numbers below \<open>n\<close>, in any order.
  The probability of each result is not represented.
\<close>

definition random_sample :: "nat \<Rightarrow> nat \<Rightarrow> nat list \<Rightarrow> bool" where
  "random_sample n k sel \<longleftrightarrow> length sel = k \<and> distinct sel \<and> (\<forall>i \<in> set sel. i < n)"

definition sample_size :: "nat \<Rightarrow> nat" where
  "sample_size num_row_groups = min 3 num_row_groups"

text \<open>Reading the selected row groups one after the other; \<open>seen\<close> lists the groups read.\<close>

fun read_row_groups ::
  "frame list \<Rightarrow> nat list \<Rightarrow> nat list \<Rightarrow> (error + frame list) \<times> nat list" where
  "read_row_groups file [] seen = (Inr [], seen)"
| "read_row_groups file (rg # rest) seen =
     (if rg < length file then
        (case read_row_groups file rest (seen @ [rg]) of
           (Inl e, seen') \<Rightarrow> (Inl e, seen')
         | (Inr fs, seen') \<Rightarrow> (Inr (file ! rg # fs), seen'))
      else (Inl IndexError, seen))"

text \<open>
  \<^verbatim>\<open>pd.concat(tables, ignore_index=True)\<close>: the rows of the tables one after the other;
  a table that lacks a column has not-a-number there. No table at all is an error.
\<close>

definition pad_rows :: "frame \<Rightarrow> row list" where
  "pad_rows f = map (\<lambda>r. (\<lambda>c. if c \<in> set (columns f) then r c else NaN)) (rows f)"

definition concat_rows :: "frame list \<Rightarrow> error + frame" where
  "concat_rows fs =
     (if fs = [] then Inl ValueError
      else Inr \<lparr>columns = first_seen (concat (map columns fs)),
                rows = concat (map pad_rows fs)\<rparr>)"

definition load_sample :: "frame list \<Rightarrow> nat list \<Rightarrow> (error + frame) \<times> nat list" where
  "load_sample file selected_groups =
     (case read_row_groups file selected_groups [] of
        (Inl e, seen) \<Rightarrow> (Inl e, seen)
      | (Inr dfs_sample, seen) \<Rightarrow> (concat_rows dfs_sample, seen))"

section \<open>Notions used in the statements and their proofs\<close>

text \<open>
  What a left join on the key brings to a row \<open>l\<close> of the left table: the columns \<open>rcols\<close> of
  a row of the right table with the same key, or not-a-number when there is none.
\<close>

definition joined :: "frame \<Rightarrow> string \<Rightarrow> string list \<Rightarrow> row \<Rightarrow> row \<Rightarrow> bool" where
  "joined right key rcols l r \<longleftrightarrow>
     (\<exists>rr \<in> set (rows right). rr key = l key \<and> r = join_row rcols l (Some rr))
     \<or> ((\<forall>rr \<in> set (rows right). rr key \<noteq> l key) \<and> r = join_row rcols l None)"

text \<open>
  \<open>joined_rate rates cur d v\<close>: the cell \<open>v\<close> is what the rate table holds for the currency
  \<open>cur\<close> on the date \<open>d\<close>, that is the cell of column \<open>cur\<close> in a row of that date, or
  not-a-number when the table has no row of that date.
\<close>

definition joined_rate :: "frame \<Rightarrow> string \<Rightarrow> cell \<Rightarrow> cell \<Rightarrow> bool" where
  "joined_rate rates cur d v \<longleftrightarrow>
     (\<exists>rr \<in> set (rows rates). rr ''date'' = d \<and> v = rr cur)
     \<or> ((\<forall>rr \<in> set (rows rates). rr ''date'' \<noteq> d) \<and> v = NaN)"



text \<open>The row of the flattened table that belongs to a row \<open>l\<close> of the raw table.\<close>

definition flat_row :: "string list \<Rightarrow> row \<Rightarrow> row" where
  "flat_row jcols l =
     (\<lambda>c. if c \<in> set jcols
          then dict_row (dict_items (safe_extract (l ''last_hour_activity''))) c
          else l c)"

text \<open>
  The conversion rule in the words of the specification. \<open>rate_of rates currency v\<close> is the
  rate of a row's currency, given the cell \<open>v\<close> that the rate table holds for it on the
  row's date: the number in \<open>v\<close>, and nothing when the currency is no text, names no
  column of the rate table, or \<open>v\<close> holds no number. \<open>usd_amount\<close> is the amount divided
  by the rate, undefined when the amount or the rate is missing or the rate is zero.
\<close>

definition rate_of :: "frame \<Rightarrow> cell \<Rightarrow> cell \<Rightarrow> real option" where
  "rate_of rates currency v =
     (case currency of
        Str cur \<Rightarrow> if cur \<in> set (columns rates) then cell_number v else None
      | _ \<Rightarrow> None)"

fun usd_amount :: "real option \<Rightarrow> real option \<Rightarrow> cell" where
  "usd_amount (Some a) (Some x) = (if x = 0 then NaN else Num (a / x))"
| "usd_amount _ _ = NaN"

section \<open>Example tables\<close>

text \<open>
  Two raw transactions: the first has no last-hour activity and a timestamp 1.5 seconds
  after the epoch, the second was made one day later. The rate table knows the first day
  only: 0.9 EUR and 0.8 GBP for one USD.
\<close>

definition example_raw :: frame where
  "example_raw =
     \<lparr>columns = [''timestamp'', ''amount'', ''currency'', ''vendor_category'', ''device'',
                 ''is_fraud'', ''last_hour_activity''],
      rows = [(\<lambda>_. NaN)(''timestamp'' := Stamp 1500000000, ''amount'' := Num 100,
                ''currency'' := Str ''EUR'', ''vendor_category'' := Str ''Retail'',
                ''device'' := Str ''Chrome'', ''is_fraud'' := Bool True,
                ''last_hour_activity'' := PyNone),
              (\<lambda>_. NaN)(''timestamp'' := Stamp 86400000000000, ''amount'' := Num 80,
                ''currency'' := Str ''GBP'', ''vendor_category'' := Str ''Travel'',
                ''device'' := Str ''Safari'', ''is_fraud'' := Bool False,
                ''last_hour_activity'' := Dict [(''num_transactions'', Some 3),
                  (''total_amount'', Some 250), (''unique_merchants'', Some 2),
                  (''unique_countries'', Some 1), (''max_single_amount'', Some 120)])]\<rparr>"

definition example_rates :: frame where
  "example_rates =
     \<lparr>columns = [''date'', ''EUR'', ''GBP''],
      rows = [(\<lambda>_. NaN)(''date'' := PyDate 0, ''EUR'' := Num (9 / 10),
                ''GBP'' := Num (8 / 10))]\<rparr>"

definition example_world :: world where
  "example_world =
     \<lparr>heap = (\<lambda>_. DataFrame)(0 := example_raw), nxt = 1,
      files = [rate_file \<mapsto> example_rates], reads = []\<rparr>"

text \<open>The same two transactions after preprocessing, as far as the filter engine reads them.\<close>

definition example_enriched :: frame where
  "example_enriched =
     \<lparr>columns = [''timestamp'', ''amount'', ''currency'', ''vendor_category'', ''device'',
                 ''is_fraud'', ''date'', ''EUR'', ''GBP'', ''amount_usd''],
      rows = [(\<lambda>_. NaN)(''timestamp'' := Stamp 1000000000, ''amount'' := Num 100,
                ''currency'' := Str ''EUR'', ''vendor_category'' := Str ''Retail'',
                ''device'' := Str ''Chrome'', ''is_fraud'' := Bool True,
                ''date'' := PyDate 0, ''EUR'' := Num (9 / 10), ''GBP'' := Num (8 / 10),
                ''amount_usd'' := Num (1000 / 9)),
              (\<lambda>_. NaN)(''timestamp'' := Stamp 86400000000000, ''amount'' := Num 80,
                ''currency'' := Str ''GBP'', ''vendor_category'' := Str ''Travel'',
                ''device'' := Str ''Safari'', ''is_fraud'' := Bool False,
                ''date'' := PyDate 1, ''EUR'' := NaN, ''GBP'' := NaN,
                ''amount_usd'' := NaN)]\<rparr>"

text \<open>A store with the enriched table, the rate table and an empty table.\<close>

definition filter_world :: world where
  "filter_world =
     \<lparr>heap = (\<lambda>_. DataFrame)(0 := example_enriched, 1 := example_rates), nxt = 3,
      files = Map.empty, reads = []\<rparr>"





text \<open>A transaction in EUR whose amount is missing.\<close>

definition missing_amount_world :: world where
  "missing_amount_world =
     \<lparr>heap = (\<lambda>_. DataFrame)(0 :=
        \<lparr>columns = [''timestamp'', ''amount'', ''currency'', ''last_hour_activity''],
         rows = [(\<lambda>_. NaN)(''timestamp'' := Stamp 0, ''amount'' := NaN,
                   ''currency'' := Str ''EUR'', ''last_hour_activity'' := PyNone)]\<rparr>),
      nxt = 1, files = [rate_file \<mapsto> example_rates], reads = []\<rparr>"

section \<open>Basic facts\<close>

lemma bnd_simps [simp]:
  "bnd (Inr x) f = f x"
  "bnd (Inl e) f = Inl e"
  by (simp_all add: bnd_def)

lemma bnd_eq_Inr: "bnd m f = Inr y \<longleftrightarrow> (\<exists>x. m = Inr x \<and> f x = Inr y)"
  by (cases m) simp_all

lemma mapM_Cons_eq_Inr:
  "mapM f (x # xs) = Inr ys \<longleftrightarrow> (\<exists>y ys'. f x = Inr y \<and> mapM f xs = Inr ys' \<and> ys = y # ys')"
  by (auto split: sum.splits)

lemma mapM_eq_Inr: "mapM f xs = Inr ys \<longleftrightarrow> list_all2 (\<lambda>x y. f x = Inr y) xs ys"
proof (induction xs arbitrary: ys)
  case Nil
  then show ?case by auto
next
  case (Cons x xs)
  show ?case
    unfolding mapM_Cons_eq_Inr Cons.IH list_all2_Cons1 by auto
qed

lemma mapM_pure: "mapM (\<lambda>x. Inr (g x)) xs = Inr (map g xs)"
  by (induction xs) simp_all

lemma set_columns_mem [simp]: "c \<in> set (set_columns c cols)"
  by (simp add: set_columns_def)

lemma assign_eq_Inr:
  "assign c g f = Inr f' \<longleftrightarrow>
     columns f' = set_columns c (columns f)
     \<and> list_all2 (\<lambda>r r'. \<exists>v. g r = Inr v \<and> r' = r(c := v)) (rows f) (rows f')"
proof -
  have *: "(\<lambda>x y. \<exists>xa. g x = Inr xa \<and> x(c := xa) = y)
         = (\<lambda>r r'. \<exists>v. g r = Inr v \<and> r' = r(c := v))"
    by (auto simp: fun_eq_iff)
  show ?thesis
    by (cases f') (auto simp: assign_def bnd_eq_Inr mapM_eq_Inr *)
qed

lemma assign_apply_columns:
  "assign_apply c g f = Inr f' \<Longrightarrow> columns f' = set_columns c (columns f)"
  by (auto simp: assign_apply_def assign_eq_Inr split: if_splits sum.splits)

lemma alloc_simps:
  "fst (alloc f w) = nxt w"
  "heap (snd (alloc f w)) = (heap w)(nxt w := f)"
  "nxt (snd (alloc f w)) = Suc (nxt w)"
  "files (snd (alloc f w)) = files w"
  "reads (snd (alloc f w)) = reads w"
  by (simp_all add: alloc_def)

subsection \<open>The filter engine\<close>

lemma copy_amount_usd_eq_Inr:
  "copy_amount_usd dff = Inr out \<longleftrightarrow>
     ''amount_usd'' \<in> set (columns dff)
     \<and> out = \<lparr>columns = set_columns ''amount_converted'' (columns dff),
              rows = map (\<lambda>r. r(''amount_converted'' := r ''amount_usd'')) (rows dff)\<rparr>"
  by (cases out) (auto simp: copy_amount_usd_def require_def assign_def mapM_pure)

lemma convert_target_columns:
  "convert_target dff df2 t = Inr out \<Longrightarrow> ''amount_converted'' \<in> set (columns out)"
  by (auto simp: convert_target_def bnd_eq_Inr dest!: assign_apply_columns)

lemma filter_data_amount_converted:
  assumes "filter_data df df2 vc ch co ci we fr tc w = (Inr p, w')"
  shows "''amount_converted'' \<in> set (columns (heap w' p))"
proof -
  from assms obtain out w1 where "alloc out w1 = (p, w')"
    and "''amount_converted'' \<in> set (columns out)"
    by (auto simp: filter_data_def copy_amount_usd_eq_Inr Let_def
      dest: convert_target_columns split: sum.splits option.splits prod.splits)
  then show ?thesis by (auto simp: alloc_def)
qed

lemma isin_filter_no_restriction: "no_restriction vals \<Longrightarrow> isin_filter c vals dff = Inr dff"
  by (auto simp: no_restriction_def isin_filter_def)

lemma apply_filters_no_restriction:
  assumes "no_restriction vendor_cats" "no_restriction channels" "no_restriction countries"
    "no_restriction cities" "no_restriction is_weekend_val" "no_restriction is_fraud_val"
  shows "apply_filters vendor_cats channels countries cities is_weekend_val is_fraud_val dff
           = Inr dff"
  using assms by (simp add: apply_filters_def isin_filter_no_restriction)

subsection \<open>The sampler\<close>

lemma read_row_groups_ok:
  "\<forall>i \<in> set sel. i < length file \<Longrightarrow>
     read_row_groups file sel seen = (Inr (map (\<lambda>i. file ! i) sel), seen @ sel)"
  by (induction sel arbitrary: seen) simp_all

lemma count_list_distinct: "distinct xs \<Longrightarrow> count_list xs x = (if x \<in> set xs then 1 else 0)"
  by (induction xs) auto

lemma two_of_two:
  assumes "distinct sel" "length sel = 2" "\<forall>i \<in> set sel. i < (2::nat)"
  shows "set sel = {0, 1}"
proof -
  have "set sel \<subseteq> {0, 1}" using assms(3) by auto
  moreover have "card (set sel) = 2" using assms(1,2) by (simp add: distinct_card)
  ultimately show ?thesis by (simp add: card_subset_eq)
qed

subsection \<open>Aggregations\<close>





lemma sort_by_ratio_desc_set [simp]: "set (sort_by_ratio_desc gs) = set gs"
  by (simp add: sort_by_ratio_desc_def)






subsection \<open>Rows through assignments and joins\<close>

lemma list_all2_forward:
  assumes "list_all2 P xs ys" and "x \<in> set xs"
  shows "\<exists>y \<in> set ys. P x y"
proof -
  from assms(2) obtain i where i: "i < length xs" "xs ! i = x"
    by (auto simp: in_set_conv_nth)
  from assms(1) i have "P x (ys ! i)" "ys ! i \<in> set ys"
    by (auto simp: list_all2_conv_all_nth)
  then show ?thesis by blast
qed

lemma list_all2_backward:
  assumes "list_all2 P xs ys" and "y \<in> set ys"
  shows "\<exists>x \<in> set xs. P x y"
proof -
  from assms(2) obtain i where i: "i < length ys" "ys ! i = y"
    by (auto simp: in_set_conv_nth)
  from assms(1) i have "P (xs ! i) y" "xs ! i \<in> set xs"
    by (auto simp: list_all2_conv_all_nth)
  then show ?thesis by blast
qed

lemma assign_backward:
  assumes "assign c g f = Inr f'" and "r' \<in> set (rows f')"
  shows "\<exists>r \<in> set (rows f). \<exists>v. g r = Inr v \<and> r' = r(c := v)"
  using assms by (auto simp: assign_eq_Inr dest: list_all2_backward)

lemma assign_forward:
  assumes "assign c g f = Inr f'" and "r \<in> set (rows f)"
  shows "\<exists>v. g r = Inr v \<and> r(c := v) \<in> set (rows f')"
  using assms by (auto simp: assign_eq_Inr dest: list_all2_forward)

lemma assign_apply_backward:
  assumes "assign_apply c g f = Inr f'" and "r' \<in> set (rows f')"
  shows "\<exists>r \<in> set (rows f). \<exists>v. g r = Inr v \<and> r' = r(c := v)"
  using assms by (auto simp: assign_apply_def split: if_splits sum.splits dest: assign_backward)

lemma assign_apply_forward:
  assumes "assign_apply c g f = Inr f'" and "r \<in> set (rows f)"
  shows "\<exists>v. g r = Inr v \<and> r(c := v) \<in> set (rows f')"
  using assms by (auto simp: assign_apply_def split: if_splits sum.splits dest: assign_forward)

lemma merge_left_eq_Inr:
  "merge_left left right key = Inr m \<Longrightarrow>
     key \<in> set (columns left) \<and> key \<in> set (columns right)
     \<and> set (columns left) \<inter> set (filter (\<lambda>c. c \<noteq> key) (columns right)) = {}
     \<and> columns m = columns left @ filter (\<lambda>c. c \<noteq> key) (columns right)"
  by (auto simp: merge_left_def Let_def split: if_splits)

lemma merge_left_rows:
  assumes "merge_left left right key = Inr m"
  shows "rows m = concat (map (\<lambda>l.
           if filter (\<lambda>r. r key = l key) (rows right) = []
           then [join_row (filter (\<lambda>c. c \<noteq> key) (columns right)) l None]
           else map (\<lambda>r. join_row (filter (\<lambda>c. c \<noteq> key) (columns right)) l (Some r))
                  (filter (\<lambda>r. r key = l key) (rows right))) (rows left))"
  using assms by (auto simp: merge_left_def Let_def split: if_splits)

lemma merge_left_backward:
  assumes "merge_left left right key = Inr m" and "r \<in> set (rows m)"
  shows "\<exists>l \<in> set (rows left). joined right key (filter (\<lambda>c. c \<noteq> key) (columns right)) l r"
proof -
  let ?rc = "filter (\<lambda>c. c \<noteq> key) (columns right)"
  from assms(2) obtain l where l: "l \<in> set (rows left)"
    and r: "r \<in> set (if filter (\<lambda>r. r key = l key) (rows right) = []
           then [join_row ?rc l None]
           else map (\<lambda>r. join_row ?rc l (Some r)) (filter (\<lambda>r. r key = l key) (rows right)))"
    unfolding merge_left_rows [OF assms(1)] by auto
  have "joined right key ?rc l r"
  proof (cases "filter (\<lambda>r. r key = l key) (rows right) = []")
    case True
    with r show ?thesis by (auto simp: joined_def filter_empty_conv)
  next
    case False
    with r show ?thesis by (auto simp: joined_def)
  qed
  with l show ?thesis by blast
qed

lemma merge_left_forward:
  assumes "merge_left left right key = Inr m" and "l \<in> set (rows left)"
  shows "\<exists>r \<in> set (rows m). joined right key (filter (\<lambda>c. c \<noteq> key) (columns right)) l r"
proof -
  let ?rc = "filter (\<lambda>c. c \<noteq> key) (columns right)"
  let ?ms = "filter (\<lambda>r. r key = l key) (rows right)"
  let ?out = "if ?ms = [] then [join_row ?rc l None]
              else map (\<lambda>r. join_row ?rc l (Some r)) ?ms"
  have sub: "set ?out \<subseteq> set (rows m)"
    unfolding merge_left_rows [OF assms(1)] using assms(2) by auto
  have "\<exists>r \<in> set ?out. joined right key ?rc l r"
  proof (cases ?ms)
    case Nil
    then show ?thesis by (auto simp: joined_def filter_empty_conv)
  next
    case (Cons rr rest)
    then have "rr \<in> set ?ms" by simp
    then have "rr \<in> set (rows right)" "rr key = l key" by auto
    with Cons show ?thesis by (auto simp: joined_def)
  qed
  with sub show ?thesis by blast
qed

subsection \<open>The stages of the filter engine\<close>

lemma isin_filter_Inr:
  "isin_filter c vals f = Inr f' \<Longrightarrow> columns f' = columns f \<and> set (rows f') \<subseteq> set (rows f)"
  by (auto simp: isin_filter_def bnd_eq_Inr split: option.splits if_splits)

lemma apply_filters_Inr:
  assumes "apply_filters vc ch co ci we fr f = Inr f'"
  shows "columns f' = columns f" and "set (rows f') \<subseteq> set (rows f)"
proof -
  from assms obtain d1 d2 d3 d4 d5 where
    "isin_filter ''vendor_category'' vc f = Inr d1"
    "isin_filter ''channel'' ch d1 = Inr d2"
    "isin_filter ''country'' co d2 = Inr d3"
    "isin_filter ''city'' ci d3 = Inr d4"
    "isin_filter ''is_weekend'' we d4 = Inr d5"
    "isin_filter ''is_fraud'' fr d5 = Inr f'"
    by (auto simp: apply_filters_def bnd_eq_Inr)
  note steps = this [THEN isin_filter_Inr]
  from steps show "columns f' = columns f" by simp
  from steps show "set (rows f') \<subseteq> set (rows f)" by blast
qed

lemma set_columns_present: "c \<in> set cols \<Longrightarrow> set_columns c cols = cols"
  by (simp add: set_columns_def)

lemma date_to_datetime_Inr:
  assumes "date_to_datetime f = Inr f'"
  shows "''date'' \<in> set (columns f)" and "columns f' = columns f"
    and "list_all2 (\<lambda>r r'. \<exists>v. to_datetime (r ''date'') = Inr v \<and> r' = r(''date'' := v))
           (rows f) (rows f')"
  using assms
  by (auto simp: date_to_datetime_def bnd_eq_Inr require_def assign_eq_Inr set_columns_present
      split: if_splits)

lemma target_rate_not_date [simp]: "target_rate t \<noteq> ''date''" "''date'' \<noteq> target_rate t"
proof -
  have "length (target_rate t) \<noteq> length ''date''" by (simp add: target_rate_def)
  then show "target_rate t \<noteq> ''date''" "''date'' \<noteq> target_rate t" by metis+
qed

lemma filter_data_converting:
  assumes "filter_data df df2 vc ch co ci we fr tc w = (Inr p, w')"
    and "conversion_target tc (heap w df2) = Some t"
  shows "\<exists>dff dff1 rates temp_df.
           apply_filters vc ch co ci we fr (heap w df) = Inr dff
         \<and> date_to_datetime dff = Inr dff1
         \<and> date_to_datetime (heap w df2) = Inr rates
         \<and> convert_target dff1 rates t = Inr temp_df
         \<and> p = nxt w
         \<and> heap w' = (heap w)(df2 := rates, nxt w := temp_df)"
  using assms
  by (auto simp: filter_data_def alloc_def store_def Let_def split: sum.splits)

lemma filter_data_copying:
  assumes "filter_data df df2 vc ch co ci we fr tc w = (Inr p, w')"
    and "conversion_target tc (heap w df2) = None"
  shows "\<exists>dff out.
           apply_filters vc ch co ci we fr (heap w df) = Inr dff
         \<and> copy_amount_usd dff = Inr out
         \<and> p = nxt w
         \<and> heap w' = (heap w)(nxt w := out)"
  using assms
  by (auto simp: filter_data_def alloc_def Let_def split: sum.splits)

lemma convert_target_rows:
  assumes c: "convert_target dff rates t = Inr temp_df"
    and t: "t \<in> set (columns dff)"
    and r': "r' \<in> set (rows temp_df)"
  shows "\<exists>rate. joined_rate rates t (r' ''date'') rate
           \<and> (if isna rate then r' ''amount_converted'' = NaN
               else fmul (r' ''amount_usd'') rate = Inr (r' ''amount_converted''))"
proof -
  let ?tr = "target_rate t"
  from c obtain right m where s: "select_rate t rates = Inr right"
    and mt: "merge_target dff right t = Inr m"
    and a: "assign_apply ''amount_converted'' (to_target (columns m) t) m = Inr temp_df"
    by (auto simp: convert_target_def bnd_eq_Inr)
  from s have td: "t \<noteq> ''date''" and right: "right = \<lparr>columns = [''date'', t], rows = rows rates\<rparr>"
    by (auto simp: select_rate_def split: if_splits)
  let ?R = "rename_column t ?tr right"
  from mt t have ml: "merge_left dff ?R ''date'' = Inr m"
    by (auto simp: merge_target_def split: if_splits)
  have Rc: "filter (\<lambda>c. c \<noteq> ''date'') (columns ?R) = [?tr]"
    using td by (simp add: rename_column_def right)
  have Rr: "rows ?R = map (\<lambda>r. r(?tr := r t)) (rows rates)"
    by (simp add: rename_column_def right)
  from assign_apply_backward [OF a r'] obtain r v where r: "r \<in> set (rows m)"
    and v: "to_target (columns m) t r = Inr v" and r'_eq: "r' = r(''amount_converted'' := v)"
    by blast
  from merge_left_backward [OF ml r] obtain l where l: "l \<in> set (rows dff)"
    and j: "joined ?R ''date'' [?tr] l r"
    unfolding Rc by blast
  from j have jr: "joined_rate rates t (r ''date'') (r ?tr)"
    unfolding joined_def joined_rate_def Rr
    by (auto simp: join_row_def)
  from v have vv: "v = (if isna (r ?tr) then NaN else v)"
      "\<not> isna (r ?tr) \<Longrightarrow> fmul (r ''amount_usd'') (r ?tr) = Inr v"
    by (auto simp: to_target_def row_get_def bnd_eq_Inr split: if_splits)
  show ?thesis
  proof (intro exI conjI)
    show "joined_rate rates t (r' ''date'') (r ?tr)" using jr by (simp add: r'_eq)
    show "if isna (r ?tr) then r' ''amount_converted'' = NaN
          else fmul (r' ''amount_usd'') (r ?tr) = Inr (r' ''amount_converted'')"
      using vv by (auto simp: r'_eq)
  qed
qed

lemma filter_data_frame:
  assumes "filter_data df df2 vc ch co ci we fr tc w = (res, w')"
    and "q < nxt w" and "q \<noteq> df2"
  shows "heap w' q = heap w q"
  using assms
  by (auto simp: filter_data_def alloc_def store_def Let_def
      split: sum.splits option.splits)

lemmas filter_eval =
  filter_data_def apply_filters_def isin_filter_def require_def conversion_target_def
  copy_amount_usd_def assign_def alloc_def store_def df_empty_def DataFrame_def
  set_columns_def filter_world_def example_enriched_def example_rates_def Let_def
  py_eq_def

lemmas convert_eval =
  filter_eval date_to_datetime_def convert_target_def select_rate_def merge_target_def
  merge_left_def rename_column_def target_rate_def join_row_def assign_apply_def to_target_def
  row_get_def fmul_def ns_per_day_def ns_per_second_def

lemma run_gbp:
  "fst (filter_data 0 1 None None None None None None (Some ''GBP'') filter_world) = Inr 3"
  by (simp add: convert_eval)

lemma run_gbp_rows:
  "map (\<lambda>r. (r ''date'', r ''amount_usd'', r ''GBP_target_rate'', r ''amount_converted''))
     (rows (heap (snd (filter_data 0 1 None None None None None None (Some ''GBP'')
        filter_world)) 3))
   = [(Stamp 0, Num (1000 / 9), Num (8 / 10), Num (800 / 9)),
      (Stamp 86400000000000, NaN, NaN, NaN)]"
  by (simp add: convert_eval)

lemma run_gbp_rates:
  "map (\<lambda>r. r ''date'')
     (rows (heap (snd (filter_data 0 1 None None None None None None (Some ''GBP'')
        filter_world)) 1))
   = [Stamp 0]"
  by (simp add: convert_eval)

lemma run_eur_empty:
  "fst (filter_data 0 2 None None None None None None (Some ''EUR'') filter_world) = Inr 3"
  "map (\<lambda>r. (r ''date'', r ''amount_usd'', r ''amount_converted''))
     (rows (heap (snd (filter_data 0 2 None None None None None None (Some ''EUR'')
        filter_world)) 3))
   = [(PyDate 0, Num (1000 / 9), Num (1000 / 9)), (PyDate 1, NaN, NaN)]"
  by (simp_all add: convert_eval)

subsection \<open>The stages of the preprocessor\<close>

lemma preprocess_data_Inr:
  assumes "preprocess_data df w = (Inr (p, d), w')" and "\<not> df_empty (heap w df)"
  shows "\<exists>f1 f2 rt out.
           floor_timestamp (heap w df) = Inr f1
         \<and> flatten_activity f1 = Inr f2
         \<and> files w rate_file = Some rt
         \<and> enrich f2 rt = Inr out
         \<and> d = nxt w \<and> p = Suc (nxt w)
         \<and> heap w' = (heap w)(df := f1, nxt w := rt, Suc (nxt w) := out)"
  using assms
  by (auto simp: preprocess_data_def read_parquet_def alloc_def store_def Let_def
      split: sum.splits option.splits prod.splits)





lemma floor_timestamp_Inr:
  assumes "floor_timestamp f = Inr f1"
  shows "columns f1 = columns f"
    and "list_all2 (\<lambda>l l1. \<exists>v. l1 = l(''timestamp'' := v)) (rows f) (rows f1)"
proof -
  from assms have t: "''timestamp'' \<in> set (columns f)"
    and a: "assign ''timestamp'' (\<lambda>r. bnd (to_datetime (r ''timestamp'')) dt_floor_s) f = Inr f1"
    by (auto simp: floor_timestamp_def bnd_eq_Inr require_def split: if_splits)
  from a t show "columns f1 = columns f" by (simp add: assign_eq_Inr set_columns_present)
  from a have "list_all2 (\<lambda>r r'. \<exists>v. bnd (to_datetime (r ''timestamp'')) dt_floor_s = Inr v
                  \<and> r' = r(''timestamp'' := v)) (rows f) (rows f1)"
    by (simp add: assign_eq_Inr)
  then show "list_all2 (\<lambda>l l1. \<exists>v. l1 = l(''timestamp'' := v)) (rows f) (rows f1)"
    by (rule list_all2_mono) blast
qed

lemma dt_date_number: "dt_date x = Inr v \<Longrightarrow> cell_number v = None"
  by (cases x) auto

lemma zip_map_same: "zip xs (map g xs) = map (\<lambda>x. (x, g x)) xs"
  by (induction xs) simp_all

lemma flatten_activity_Inr:
  assumes "flatten_activity f = Inr f2"
  shows "\<exists>jcols.
             jcols = columns (json_normalize
                        (map (\<lambda>r. safe_extract (r ''last_hour_activity'')) (rows f)))
           \<and> set (columns f) \<inter> set jcols = {}
           \<and> columns f2 = set_columns ''date'' (columns f @ jcols)
           \<and> list_all2 (\<lambda>l l2. \<exists>v. cell_number v = None \<and> l2 = (flat_row jcols l)(''date'' := v))
                 (rows f) (rows f2)"
proof -
  let ?J = "json_normalize (map (\<lambda>r. safe_extract (r ''last_hour_activity'')) (rows f))"
  from assms obtain cc where c: "concat_columns f ?J = Inr cc"
    and a: "assign ''date'' (\<lambda>r. dt_date (r ''timestamp'')) cc = Inr f2"
    by (auto simp: flatten_activity_def bnd_eq_Inr Let_def)
  from c have d: "set (columns f) \<inter> set (columns ?J) = {}"
    and cc: "cc = \<lparr>columns = columns f @ columns ?J,
                   rows = map (\<lambda>(r, s). (\<lambda>c. if c \<in> set (columns ?J) then s c else r c))
                            (zip (rows f) (rows ?J))\<rparr>"
    by (auto simp: concat_columns_def split: if_splits)
  have rj: "rows ?J = map (\<lambda>r. dict_row (dict_items (safe_extract (r ''last_hour_activity''))))
                        (rows f)"
    by (simp add: json_normalize_def comp_def)
  have rc: "rows cc = map (flat_row (columns ?J)) (rows f)"
    unfolding cc rj by (simp add: zip_map_same comp_def flat_row_def)
  from a have "list_all2 (\<lambda>r r'. \<exists>v. dt_date (r ''timestamp'') = Inr v \<and> r' = r(''date'' := v))
                 (map (flat_row (columns ?J)) (rows f)) (rows f2)"
    by (simp add: assign_eq_Inr rc)
  then have "list_all2 (\<lambda>l l2. \<exists>v. cell_number v = None
                 \<and> l2 = (flat_row (columns ?J) l)(''date'' := v)) (rows f) (rows f2)"
    unfolding list_all2_map1 by (rule list_all2_mono) (auto dest: dt_date_number)
  moreover from a have "columns f2 = set_columns ''date'' (columns f @ columns ?J)"
    by (simp add: assign_eq_Inr cc)
  ultimately show ?thesis using d by blast
qed

lemma json_columns_keys:
  assumes "l \<in> set (rows f)"
  shows "fst ` set (dict_items (safe_extract (l ''last_hour_activity'')))
           \<subseteq> set (columns (json_normalize
                   (map (\<lambda>r. safe_extract (r ''last_hour_activity'')) (rows f))))"
  using assms by (auto simp: json_normalize_def first_seen_def)

lemma safe_extract_malformed:
  "(\<forall>d. x \<noteq> Dict d) \<Longrightarrow> safe_extract x = Dict activity_defaults"
  by (cases x) simp_all

lemma dict_row_defaults: "dict_row activity_defaults k = NaN"
  by (auto simp: dict_row_def activity_defaults_def map_of_map_restrict restrict_map_def
      split: option.splits)

lemma activity_defaults_keys: "fst ` set activity_defaults = set activity_names"
  by (auto simp: activity_defaults_def image_iff)

lemma reset_index_Inr:
  assumes "reset_index rt = Inr R"
  shows "\<exists>name. name \<notin> set (columns rt) \<and> name \<noteq> ''date''
           \<and> columns R = name # columns rt
           \<and> (\<forall>rr \<in> set (rows R). \<exists>rr0 \<in> set (rows rt). \<exists>x. rr = rr0(name := x))
           \<and> (\<forall>rr0 \<in> set (rows rt). \<exists>x. rr0(name := x) \<in> set (rows R))"
proof -
  let ?name = "if ''index'' \<in> set (columns rt) then ''level_0'' else ''index''"
  from assms have n: "?name \<notin> set (columns rt)"
    and R: "R = \<lparr>columns = ?name # columns rt,
                 rows = map (\<lambda>(i, r). r(?name := Num (real i))) (enumerate 0 (rows rt))\<rparr>"
    by (auto simp: reset_index_def Let_def split: if_splits)
  have d: "?name \<noteq> ''date''" by simp
  have b: "\<exists>rr0 \<in> set (rows rt). \<exists>x. rr = rr0(?name := x)" if "rr \<in> set (rows R)" for rr
  proof -
    from that obtain i r where "(i, r) \<in> set (enumerate 0 (rows rt))"
      and "rr = r(?name := Num (real i))"
      unfolding R by auto
    then show ?thesis by (auto simp: in_set_enumerate_eq)
  qed
  have f: "\<exists>x. rr0(?name := x) \<in> set (rows R)" if "rr0 \<in> set (rows rt)" for rr0
  proof -
    from that obtain i where "i < length (rows rt)" "rows rt ! i = rr0"
      by (auto simp: in_set_conv_nth)
    then have "(i, rr0) \<in> set (enumerate 0 (rows rt))" by (simp add: in_set_enumerate_eq)
    then have "rr0(?name := Num (real i)) \<in> set (rows R)"
      unfolding R by (force simp: image_iff)
    then show ?thesis by blast
  qed
  from n d R b f show ?thesis by (intro exI [of _ ?name]) simp
qed

lemma set_columns_subset: "set cols \<subseteq> set (set_columns c cols)"
  by (auto simp: set_columns_def)

lemma enrich_Inr:
  assumes "enrich f rt = Inr out"
  shows "\<exists>R m. reset_index rt = Inr R \<and> merge_left f R ''date'' = Inr m
           \<and> set (columns m) \<subseteq> set (columns out)
           \<and> (\<forall>r \<in> set (rows out). \<exists>mr \<in> set (rows m). \<exists>v h wd.
                 convert_to_usd (columns m) (columns rt) mr = Inr v
                 \<and> r = mr(''amount_usd'' := v, ''hour'' := h, ''weekday'' := wd))
           \<and> (\<forall>mr \<in> set (rows m). \<exists>v h wd.
                 mr(''amount_usd'' := v, ''hour'' := h, ''weekday'' := wd) \<in> set (rows out))"
proof -
  from assms obtain R m m1 m2 where R: "reset_index rt = Inr R"
    and m: "merge_left f R ''date'' = Inr m"
    and m1: "assign_apply ''amount_usd'' (convert_to_usd (columns m) (columns rt)) m = Inr m1"
    and m2: "assign ''hour'' (\<lambda>r. dt_hour (r ''timestamp'')) m1 = Inr m2"
    and out: "assign ''weekday'' (\<lambda>r. dt_day_name (r ''timestamp'')) m2 = Inr out"
    by (auto simp: enrich_def bnd_eq_Inr)
  have cols: "set (columns m) \<subseteq> set (columns out)"
    using assign_apply_columns [OF m1] m2 out
      set_columns_subset [of "columns m" "''amount_usd''"]
      set_columns_subset [of "columns m1" "''hour''"]
      set_columns_subset [of "columns m2" "''weekday''"]
    by (auto simp: assign_eq_Inr)
  have bwd: "\<exists>mr \<in> set (rows m). \<exists>v h wd.
                 convert_to_usd (columns m) (columns rt) mr = Inr v
                 \<and> r = mr(''amount_usd'' := v, ''hour'' := h, ''weekday'' := wd)"
    if "r \<in> set (rows out)" for r
  proof -
    from assign_backward [OF out that] obtain r2 wd where r2: "r2 \<in> set (rows m2)"
      and 1: "r = r2(''weekday'' := wd)" by blast
    from assign_backward [OF m2 r2] obtain r1 h where r1: "r1 \<in> set (rows m1)"
      and 2: "r2 = r1(''hour'' := h)" by blast
    from assign_apply_backward [OF m1 r1] obtain mr v where mr: "mr \<in> set (rows m)"
      and v: "convert_to_usd (columns m) (columns rt) mr = Inr v"
      and 3: "r1 = mr(''amount_usd'' := v)" by blast
    from mr v 1 2 3 show ?thesis by blast
  qed
  have fwd: "\<exists>v h wd. mr(''amount_usd'' := v, ''hour'' := h, ''weekday'' := wd) \<in> set (rows out)"
    if "mr \<in> set (rows m)" for mr
  proof -
    from assign_apply_forward [OF m1 that] obtain v where
      1: "mr(''amount_usd'' := v) \<in> set (rows m1)" by blast
    from assign_forward [OF m2 1] obtain h where
      2: "mr(''amount_usd'' := v, ''hour'' := h) \<in> set (rows m2)" by blast
    from assign_forward [OF out 2] obtain wd where
      "mr(''amount_usd'' := v, ''hour'' := h, ''weekday'' := wd) \<in> set (rows out)" by blast
    then show ?thesis by blast
  qed
  from R m cols bwd fwd show ?thesis by blast
qed

lemma joined_left: "joined R key rcols l mr \<Longrightarrow> c \<notin> set rcols \<Longrightarrow> mr c = l c"
  by (auto simp: joined_def join_row_def)

lemma usd_amount_NaN: "usd_amount a x = NaN \<longleftrightarrow> a = None \<or> x = None \<or> x = Some 0"
  by (cases a; cases x) auto

lemma usd_amount_no_rate [simp]: "usd_amount a None = NaN" "usd_amount a (Some 0) = NaN"
  by (cases a; simp)+

lemma arith_val_number: "arith_val c = Inr x \<Longrightarrow> cell_number c = x"
  by (cases c) auto

lemma isna_number: "isna c \<Longrightarrow> cell_number c = None"
  by (cases c) auto

lemma eq_zero_number: "eq_zero c \<Longrightarrow> cell_number c = Some 0"
  by (auto simp: eq_zero_def)

lemma fdiv_Inr:
  assumes "fdiv a b = Inr v" and "\<not> isna b"
  shows "v = usd_amount (cell_number a) (cell_number b)"
proof -
  from assms(1) obtain x y where x: "arith_val a = Inr x" and y: "arith_val b = Inr y"
    and v: "(case (x, y) of
               (Some u, Some w) \<Rightarrow> (if w = 0 then Inl ZeroDivisionError else Inr (Num (u / w)))
             | _ \<Rightarrow> Inr NaN) = Inr v"
    by (auto simp: fdiv_def bnd_eq_Inr)
  from y assms(2) obtain w where w: "y = Some w" by (cases b) auto
  from v w show ?thesis
    unfolding arith_val_number [OF x] arith_val_number [OF y]
    by (cases x) (auto split: if_splits)
qed

text \<open>The rate that line 51 reads for a row: the cell of the column named by the row's
  currency, when the currency names a column of the rate table.\<close>

lemma convert_to_usd_Inr:
  assumes "convert_to_usd cols df2_columns mr = Inr v"
  shows "v = usd_amount (cell_number (mr ''amount''))
               (case mr ''currency'' of
                  Str cur \<Rightarrow> if cur \<in> set df2_columns then cell_number (mr cur) else None
                | _ \<Rightarrow> None)"
proof (cases "\<exists>cur. mr ''currency'' = Str cur \<and> cur \<in> set df2_columns")
  case False
  with assms have "v = NaN"
    by (cases "mr ''currency''")
      (auto simp: convert_to_usd_def row_get_def bnd_eq_Inr split: if_splits)
  with False show ?thesis by (cases "mr ''currency''") auto
next
  case True
  then obtain cur where c: "mr ''currency'' = Str cur" "cur \<in> set df2_columns" by blast
  show ?thesis
  proof (cases "isna (mr cur) \<or> eq_zero (mr cur)")
    case True
    then have "cell_number (mr cur) = None \<or> cell_number (mr cur) = Some 0"
      by (auto dest: isna_number eq_zero_number)
    moreover from assms c True have "v = NaN"
      by (auto simp: convert_to_usd_def row_get_def bnd_eq_Inr split: if_splits)
    ultimately show ?thesis using c by auto
  next
    case False
    with assms c have "fdiv (mr ''amount'') (mr cur) = Inr v"
      by (auto simp: convert_to_usd_def row_get_def bnd_eq_Inr split: if_splits)
    from fdiv_Inr [OF this] False c show ?thesis by simp
  qed
qed

lemma joined_rate_of_joined:
  assumes R: "reset_index rt = Inr R"
    and date: "''date'' \<in> set (columns R)"
    and j: "joined R ''date'' (filter (\<lambda>c. c \<noteq> ''date'') (columns R)) l mr"
    and cur: "cur \<in> set (columns rt)" "cur \<noteq> ''date''"
  shows "joined_rate rt cur (l ''date'') (mr cur)"
proof -
  from reset_index_Inr [OF R] obtain name where n: "name \<notin> set (columns rt)"
    "name \<noteq> ''date''" and c: "columns R = name # columns rt"
    and b: "\<forall>rr \<in> set (rows R). \<exists>rr0 \<in> set (rows rt). \<exists>x. rr = rr0(name := x)"
    and f: "\<forall>rr0 \<in> set (rows rt). \<exists>x. rr0(name := x) \<in> set (rows R)"
    by blast
  let ?rc = "filter (\<lambda>c. c \<noteq> ''date'') (columns R)"
  from cur c have in_rc: "cur \<in> set ?rc" by simp
  from cur n have cn: "cur \<noteq> name" by auto
  from j show ?thesis
    unfolding joined_def
  proof (elim disjE bexE conjE)
    fix rr
    assume rr: "rr \<in> set (rows R)" and k: "rr ''date'' = l ''date''"
      and mr: "mr = join_row ?rc l (Some rr)"
    from b rr obtain rr0 x where rr0: "rr0 \<in> set (rows rt)" and e: "rr = rr0(name := x)"
      by blast
    from mr in_rc have "mr cur = rr cur" by (simp add: join_row_def)
    with e cn have "mr cur = rr0 cur" by simp
    moreover from k e n(2) have "rr0 ''date'' = l ''date''" by simp
    ultimately show ?thesis using rr0 by (auto simp: joined_rate_def)
  next
    assume none: "\<forall>rr \<in> set (rows R). rr ''date'' \<noteq> l ''date''"
      and mr: "mr = join_row ?rc l None"
    from mr in_rc have "mr cur = NaN" by (simp add: join_row_def)
    moreover have "rr0 ''date'' \<noteq> l ''date''" if "rr0 \<in> set (rows rt)" for rr0
    proof -
      from f that obtain x where "rr0(name := x) \<in> set (rows R)" by blast
      with none have "(rr0(name := x)) ''date'' \<noteq> l ''date''" by blast
      with n(2) show ?thesis by simp
    qed
    ultimately show ?thesis by (auto simp: joined_rate_def)
  qed
qed


subsection \<open>The example runs\<close>

lemmas preprocess_eval =
  preprocess_data_def example_world_def example_raw_def example_rates_def
  df_empty_def floor_timestamp_def require_def assign_def store_def flatten_activity_def
  json_normalize_def concat_columns_def read_parquet_def alloc_def enrich_def reset_index_def
  merge_left_def join_row_def assign_apply_def convert_to_usd_def row_get_def fdiv_def
  eq_zero_def dict_row_def activity_defaults_def activity_names_def ns_per_second_def
  ns_per_hour_def ns_per_day_def rate_file_def day_names_def Let_def set_columns_def
  DataFrame_def first_seen_def

lemma example_run: "fst (preprocess_data 0 example_world) = Inr (2, 1)"
  by (simp add: preprocess_eval)

lemma example_run_rows:
  "map (\<lambda>r. (r ''amount'', r ''currency'', r ''date'', r ''amount_usd'', r ''hour'',
              r ''weekday''))
     (rows (heap (snd (preprocess_data 0 example_world)) 2))
   = [(Num 100, Str ''EUR'', PyDate 0, Num (1000 / 9), Num 0, Str ''Thursday''),
      (Num 80, Str ''GBP'', PyDate 1, NaN, Num 0, Str ''Friday'')]"
  by (simp add: preprocess_eval)

lemma example_run_activity:
  "map (\<lambda>r. map r activity_names) (rows (heap (snd (preprocess_data 0 example_world)) 2))
   = [[NaN, NaN, NaN, NaN, NaN], [Num 3, Num 250, Num 2, Num 1, Num 120]]"
  by (simp add: preprocess_eval)


lemma example_run_rates:
  "heap (snd (preprocess_data 0 example_world)) 1 = example_rates"
  by (simp add: preprocess_eval)

lemma missing_amount_run:
  "fst (preprocess_data 0 missing_amount_world) = Inr (2, 1)"
  "map (\<lambda>r. (r ''amount'', r ''currency'', r ''date'', r ''amount_usd''))
     (rows (heap (snd (preprocess_data 0 missing_amount_world)) 2))
   = [(NaN, Str ''EUR'', PyDate 0, NaN)]"
  "heap (snd (preprocess_data 0 missing_amount_world)) 1 = example_rates"
  by (simp_all add: preprocess_eval missing_amount_world_def)

subsection \<open>The rate joined to a row\<close>

lemma flatten_activity_date:
  assumes "flatten_activity f = Inr f2" and "l \<in> set (rows f2)"
  shows "cell_number (l ''date'') = None"
proof -
  from flatten_activity_Inr [OF assms(1)] obtain jcols where
    "list_all2 (\<lambda>l l2. \<exists>v. cell_number v = None \<and> l2 = (flat_row jcols l)(''date'' := v))
       (rows f) (rows f2)"
    by blast
  from list_all2_backward [OF this assms(2)] show ?thesis by auto
qed

lemma joined_rate_exists: "\<exists>rate. joined_rate rates cur d rate"
  unfolding joined_rate_def by blast

lemma joined_rate_of_date:
  assumes "cell_number d = None"
  shows "\<exists>rate. joined_rate rates ''date'' d rate \<and> cell_number rate = None"
proof (cases "\<exists>rr \<in> set (rows rates). rr ''date'' = d")
  case True
  then obtain rr where "rr \<in> set (rows rates)" "rr ''date'' = d" by blast
  with assms have "joined_rate rates ''date'' d (rr ''date'') \<and> cell_number (rr ''date'') = None"
    unfolding joined_rate_def by blast
  then show ?thesis by blast
next
  case False
  then have "joined_rate rates ''date'' d NaN \<and> cell_number NaN = None"
    unfolding joined_rate_def by simp
  then show ?thesis by blast
qed

subsection \<open>Counting the records of a device\<close>







subsection \<open>The callback on a table without rows\<close>

lemma widget_values_no_rows:
  assumes "rows dff = []" and "''amount_converted'' \<in> set (columns dff)"
  shows "widget_values dff
           = Inr \<lparr>total_transactions = 0, total_fraud_amount = Num 0,
                  fraud_percentage = Num 0, avg_transaction_amount = Num 0\<rparr>"
  using assms
  by (simp add: widget_values_def column_def require_def series_sum_def present_def)

lemma update_graphs_return_no_rows:
  assumes "rows dff = []" and "''amount_converted'' \<in> set (columns dff)"
  shows "update_graphs_return dff
           = Inr (replicate 19 EmptyFigure @ [Count 0, Amount (Num 0), Amount (Num 0),
                    Amount (Num 0)])"
  using assms(1)
  by (simp add: update_graphs_return_def widget_values_no_rows [OF assms] df_empty_def
      widget_outputs_def)

text \<open>Lines 1029 to 1035 put the four widget texts where lines 683 to 686 declare their
  outputs: components 10 to 13.\<close>

lemma update_graphs_return_widgets:
  assumes "update_graphs_return dff = Inr outs" and "\<not> df_empty dff"
  shows "\<exists>v. widget_values dff = Inr v
           \<and> output_of outs ''widget-total-transactions'' = Some (Count (total_transactions v))
           \<and> output_of outs ''widget-total-fraud-amount'' = Some (Amount (total_fraud_amount v))
           \<and> output_of outs ''widget-fraud-percentage'' = Some (Amount (fraud_percentage v))
           \<and> output_of outs ''widget-avg-transaction-amount''
               = Some (Amount (avg_transaction_amount v))"
  using assms
  by (auto simp: update_graphs_return_def bnd_eq_Inr output_of_def output_ids_def
      widget_outputs_def)

lemma empty_return_eval:
  "output_of (replicate 19 EmptyFigure @ [a, b, c, d]) ''widget-total-transactions''
     = Some EmptyFigure"
  "output_of (replicate 19 EmptyFigure @ [a, b, c, d]) ''widget-total-fraud-amount''
     = Some EmptyFigure"
  "output_of (replicate 19 EmptyFigure @ [a, b, c, d]) ''widget-fraud-percentage''
     = Some EmptyFigure"
  "output_of (replicate 19 EmptyFigure @ [a, b, c, d]) ''widget-avg-transaction-amount''
     = Some EmptyFigure"
  "output_of (replicate 19 EmptyFigure @ [a, b, c, d]) ''fraud_by_city_size'' = Some a"
  "output_of (replicate 19 EmptyFigure @ [a, b, c, d]) ''top_fraudulent_vendors'' = Some b"
  "output_of (replicate 19 EmptyFigure @ [a, b, c, d]) ''top_fraudulent_cities'' = Some c"
  "output_of (replicate 19 EmptyFigure @ [a, b, c, d]) ''top_fraudulent_customers'' = Some d"
  by (simp_all add: output_of_def output_ids_def eval_nat_numeral)

lemma run_grocery:
  "fst (filter_data 0 1 (Some [Str ''Grocery'']) None None None None None (Some ''USD'')
          filter_world) = Inr 3"
  "rows (heap (snd (filter_data 0 1 (Some [Str ''Grocery'']) None None None None None
                      (Some ''USD'') filter_world)) 3) = []"
  "columns (heap (snd (filter_data 0 1 (Some [Str ''Grocery'']) None None None None None
                      (Some ''USD'') filter_world)) 3)
     = columns example_enriched @ [''amount_converted'']"
  by (simp_all add: filter_eval)

lemma widgets_of_empty_result:
  assumes "filter_data df df2 vendor_cats channels countries cities is_weekend_val
             is_fraud_val target_currency w = (Inr p, w')"
    and "rows (heap w' p) = []"
  shows "widget_values (heap w' p)
           = Inr \<lparr>total_transactions = 0, total_fraud_amount = Num 0,
                  fraud_percentage = Num 0, avg_transaction_amount = Num 0\<rparr>"
    and "update_graphs_return (heap w' p)
           = Inr (replicate 19 EmptyFigure @ [Count 0, Amount (Num 0), Amount (Num 0),
                    Amount (Num 0)])"
proof -
  have c: "''amount_converted'' \<in> set (columns (heap w' p))"
    using assms(1) by (rule filter_data_amount_converted)
  show "widget_values (heap w' p)
           = Inr \<lparr>total_transactions = 0, total_fraud_amount = Num 0,
                  fraud_percentage = Num 0, avg_transaction_amount = Num 0\<rparr>"
    using assms(2) c by (rule widget_values_no_rows)
  show "update_graphs_return (heap w' p)
           = Inr (replicate 19 EmptyFigure @ [Count 0, Amount (Num 0), Amount (Num 0),
                    Amount (Num 0)])"
    using assms(2) c by (rule update_graphs_return_no_rows)
qed

subsection \<open>No filter and the target USD\<close>

text \<open>
  On a table that has the column \<open>amount_usd\<close>, the filter engine without any filter and
  with the target USD returns a new table with the rows of the input, each with
  \<open>amount_converted\<close> set to its \<open>amount_usd\<close>, so that the two means agree.
\<close>

lemma filter_data_no_restriction:
  assumes "no_restriction vendor_cats" "no_restriction channels" "no_restriction countries"
    "no_restriction cities" "no_restriction is_weekend_val" "no_restriction is_fraud_val"
    and "''amount_usd'' \<in> set (columns (heap w df))"
  shows "\<exists>w'. filter_data df df2 vendor_cats channels countries cities is_weekend_val
              is_fraud_val (Some ''USD'') w = (Inr (nxt w), w')
          \<and> rows (heap w' (nxt w))
              = map (\<lambda>r. r(''amount_converted'' := r ''amount_usd'')) (rows (heap w df))
          \<and> bnd (column ''amount_converted'' (heap w' (nxt w))) series_mean
              = bnd (column ''amount_usd'' (heap w df)) series_mean"
proof -
  let ?out = "\<lparr>columns = set_columns ''amount_converted'' (columns (heap w df)),
              rows = map (\<lambda>r. r(''amount_converted'' := r ''amount_usd'')) (rows (heap w df))\<rparr>"
  have c: "copy_amount_usd (heap w df) = Inr ?out"
    using assms(7) by (simp add: copy_amount_usd_eq_Inr)
  have t: "conversion_target (Some ''USD'') (heap w df2) = None"
    by (simp add: conversion_target_def)
  have f: "filter_data df df2 vendor_cats channels countries cities is_weekend_val
              is_fraud_val (Some ''USD'') w = (Inr (nxt w), snd (alloc ?out w))"
    using assms(1-6) by (simp add: filter_data_def apply_filters_no_restriction c t alloc_def)
  have h: "heap (snd (alloc ?out w)) (nxt w) = ?out"
    by (simp add: alloc_def)
  have m: "bnd (column ''amount_converted'' ?out) series_mean
              = bnd (column ''amount_usd'' (heap w df)) series_mean"
    using assms(7) by (simp add: column_def require_def comp_def)
  show ?thesis using f h m by simp
qed

section \<open>The claims\<close>

subsection \<open>The preprocessor on an empty table\<close>

text \<open>
  C10. On an empty raw table (no rows or no columns) the preprocessor returns the very
  table it was given, unchanged, together with a new table without rows and columns;
  no table in the store is changed and no file is read.
\<close>

theorem preprocess_data_empty:
  assumes "df_empty (heap w df)" and "df < nxt w"
  shows "\<exists>e w'. preprocess_data df w = (Inr (df, e), w')
           \<and> heap w' df = heap w df
           \<and> heap w' e = DataFrame
           \<and> e \<noteq> df
           \<and> (\<forall>p < nxt w. heap w' p = heap w p)
           \<and> reads w' = reads w
           \<and> files w' = files w"
  using assms by (simp add: preprocess_data_def alloc_def)

theorem preprocess_data_empty_witness:
  "df_empty (heap filter_world 2) \<and> 2 < nxt filter_world
   \<and> (\<exists>e w'. preprocess_data 2 filter_world = (Inr (2, e), w')
           \<and> heap w' 2 = heap filter_world 2
           \<and> heap w' e = DataFrame
           \<and> e \<noteq> 2
           \<and> (\<forall>p < nxt filter_world. heap w' p = heap filter_world p)
           \<and> reads w' = reads filter_world
           \<and> files w' = files filter_world)"
proof -
  have a: "df_empty (heap filter_world 2)"
    by (simp add: filter_world_def df_empty_def DataFrame_def)
  have b: "2 < nxt filter_world" by (simp add: filter_world_def)
  from preprocess_data_empty [OF a b] a b show ?thesis by simp
qed

subsection \<open>The widgets of an empty result\<close>

text \<open>
  C5. The claim holds of the four values that lines 725 to 728 compute, and fails for
  what the callback returns. On the enriched table, a vendor category that no row has
  leaves a table without rows. The four widget values are then computed without an error
  and are the transaction count 0, the fraud amount 0, the fraud percentage 0 and the
  average amount 0. The return of lines 755 to 757 puts 19 empty figures first and the
  four values last, whereas the outputs of the four widgets are the components 10 to 13
  (lines 683 to 686), where lines 1029 to 1035 put the values of a table with rows
  (\<open>update_graphs_return_widgets\<close>). So each of the four widgets receives an empty figure,
  and the zeros go to the last four charts.
\<close>

theorem update_graphs_empty_table:
  "rows (heap (snd (filter_data 0 1 (Some [Str ''Grocery'']) None None None None None
                      (Some ''USD'') filter_world)) 3) = []
   \<and> widget_values (heap (snd (filter_data 0 1 (Some [Str ''Grocery'']) None None None
                                None None (Some ''USD'') filter_world)) 3)
       = Inr \<lparr>total_transactions = 0, total_fraud_amount = Num 0,
              fraud_percentage = Num 0, avg_transaction_amount = Num 0\<rparr>
   \<and> update_graphs_return (heap (snd (filter_data 0 1 (Some [Str ''Grocery'']) None None
                                        None None None (Some ''USD'') filter_world)) 3)
       = Inr (replicate 19 EmptyFigure @ [Count 0, Amount (Num 0), Amount (Num 0),
                Amount (Num 0)])
   \<and> output_of (replicate 19 EmptyFigure @ [Count 0, Amount (Num 0), Amount (Num 0),
                   Amount (Num 0)]) ''widget-total-transactions'' = Some EmptyFigure
   \<and> output_of (replicate 19 EmptyFigure @ [Count 0, Amount (Num 0), Amount (Num 0),
                   Amount (Num 0)]) ''widget-total-fraud-amount'' = Some EmptyFigure
   \<and> output_of (replicate 19 EmptyFigure @ [Count 0, Amount (Num 0), Amount (Num 0),
                   Amount (Num 0)]) ''widget-fraud-percentage'' = Some EmptyFigure
   \<and> output_of (replicate 19 EmptyFigure @ [Count 0, Amount (Num 0), Amount (Num 0),
                   Amount (Num 0)]) ''widget-avg-transaction-amount'' = Some EmptyFigure
   \<and> output_of (replicate 19 EmptyFigure @ [Count 0, Amount (Num 0), Amount (Num 0),
                   Amount (Num 0)]) ''fraud_by_city_size'' = Some (Count 0)
   \<and> output_of (replicate 19 EmptyFigure @ [Count 0, Amount (Num 0), Amount (Num 0),
                   Amount (Num 0)]) ''top_fraudulent_customers'' = Some (Amount (Num 0))"
proof -
  let ?dff = "heap (snd (filter_data 0 1 (Some [Str ''Grocery'']) None None None None None
                      (Some ''USD'') filter_world)) 3"
  have c: "''amount_converted'' \<in> set (columns ?dff)" using run_grocery(3) by simp
  note w = widget_values_no_rows [OF run_grocery(2) c]
  note u = update_graphs_return_no_rows [OF run_grocery(2) c]
  from run_grocery(2) w u empty_return_eval(1-5,8) show ?thesis by (intro conjI)
qed

subsection \<open>No filter on the empty table\<close>

text \<open>
  C7. The claim fails on the table without columns, \<^verbatim>\<open>pd.DataFrame()\<close>, which the module
  holds when the transaction file could not be loaded (line 78) and which the callback
  then passes to the filter engine. With every filter absent and the target USD, line 666
  reads the column \<open>amount_usd\<close> of that table and raises \<^verbatim>\<open>KeyError\<close>: no table is
  returned. On a table with the column \<open>amount_usd\<close> the claim holds
  (\<open>filter_data_no_restriction\<close>).
\<close>

theorem filter_data_empty_table:
  "heap filter_world 2 = DataFrame
   \<and> no_restriction None
   \<and> filter_data 2 1 None None None None None None (Some ''USD'') filter_world
       = (Inl (KeyError ''amount_usd''), filter_world)"
  by (simp add: filter_eval no_restriction_def)

subsection \<open>The sampler\<close>

text \<open>
  C4. For a file of \<open>G\<close> row groups and any result \<open>sel\<close> of drawing \<open>min 3 G\<close> groups without
  replacement, the sampler reads exactly the groups of \<open>sel\<close>: \<open>min 3 G\<close> reads, no group
  twice, every read a group of the file, and the table is the concatenation of the
  groups read. With two row groups both are read exactly once.
\<close>

theorem load_sample_reads:
  assumes "random_sample (length file) (sample_size (length file)) sel"
  shows "snd (load_sample file sel) = sel
       \<and> length sel = min 3 (length file)
       \<and> (\<forall>g. count_list sel g \<le> 1)
       \<and> (\<forall>g. 0 < count_list sel g \<longrightarrow> g < length file)
       \<and> fst (load_sample file sel) = concat_rows (map (\<lambda>g. file ! g) sel)
       \<and> (length file = 2 \<longrightarrow> count_list sel 0 = 1 \<and> count_list sel 1 = 1)"
proof -
  from assms have len: "length sel = min 3 (length file)" and d: "distinct sel"
    and b: "\<forall>i \<in> set sel. i < length file"
    by (simp_all add: random_sample_def sample_size_def)
  have r: "read_row_groups file sel [] = (Inr (map (\<lambda>i. file ! i) sel), sel)"
    using read_row_groups_ok [OF b, of "[]"] by simp
  have 1: "snd (load_sample file sel) = sel"
    and 5: "fst (load_sample file sel) = concat_rows (map (\<lambda>g. file ! g) sel)"
    by (simp_all add: load_sample_def r)
  have 3: "\<forall>g. count_list sel g \<le> 1" using d by (simp add: count_list_distinct)
  have 4: "\<forall>g. 0 < count_list sel g \<longrightarrow> g < length file"
    using b d by (auto simp: count_list_distinct split: if_splits)
  have 6: "length file = 2 \<longrightarrow> count_list sel 0 = 1 \<and> count_list sel 1 = 1"
  proof
    assume "length file = 2"
    with len b have "length sel = 2" "\<forall>i \<in> set sel. i < (2::nat)" by simp_all
    from two_of_two [OF d this] show "count_list sel 0 = 1 \<and> count_list sel 1 = 1"
      using d by (simp add: count_list_distinct)
  qed
  from 1 len 3 4 5 6 show ?thesis by blast
qed

theorem load_sample_reads_witness:
  "random_sample (length [example_raw, example_raw])
      (sample_size (length [example_raw, example_raw])) [1, 0]
   \<and> snd (load_sample [example_raw, example_raw] [1, 0]) = [1, 0]
   \<and> count_list [1, 0::nat] 0 = 1 \<and> count_list [1, 0::nat] 1 = 1
   \<and> length (rows (projr (fst (load_sample [example_raw, example_raw] [1, 0])))) = 4"
proof -
  have a: "random_sample (length [example_raw, example_raw])
      (sample_size (length [example_raw, example_raw])) [1, 0]"
    by (simp add: random_sample_def sample_size_def)
  have l: "length (rows (projr (concat_rows (map (\<lambda>g. [example_raw, example_raw] ! g) [1, 0]))))
             = 4"
    by (simp add: concat_rows_def pad_rows_def example_raw_def)
  from load_sample_reads [OF a] a l show ?thesis by simp
qed

subsection \<open>Fraud ratio by device\<close>




subsection \<open>The converted amount\<close>

text \<open>
  C3, as the code has it. For every row of the table that the filter engine returns:
  when no conversion takes place (the target is absent, empty or USD, or the rate
  table is empty) \<open>amount_converted\<close> is \<open>amount_usd\<close>. Otherwise the rate table has a column
  for the target, and, the record table having a column of that name as well (as every
  table enriched with these rates has), \<open>amount_converted\<close> is \<open>amount_usd\<close> times the
  target's rate on the row's date when the rate table holds a rate for that date, and
  not-a-number when it has no row for that date or the rate is missing.
\<close>

theorem filter_data_amount_converted_value:
  assumes run: "filter_data df df2 vendor_cats channels countries cities is_weekend_val
                  is_fraud_val target_currency w = (Inr p, w')"
    and df2: "df2 < nxt w"
    and r: "r \<in> set (rows (heap w' p))"
  shows "case conversion_target target_currency (heap w df2) of
           None \<Rightarrow> r ''amount_converted'' = r ''amount_usd''
         | Some t \<Rightarrow>
             t \<in> set (columns (heap w df2)) \<and>
             (t \<in> set (columns (heap w df)) \<longrightarrow>
                (\<exists>rate. joined_rate (heap w' df2) t (r ''date'') rate
                   \<and> (if isna rate then r ''amount_converted'' = NaN
                       else fmul (r ''amount_usd'') rate = Inr (r ''amount_converted''))))"
proof (cases "conversion_target target_currency (heap w df2)")
  case None
  from filter_data_copying [OF run None] obtain dff out where
    c: "copy_amount_usd dff = Inr out" and h: "heap w' p = out"
    by auto
  from c r h have "r ''amount_converted'' = r ''amount_usd''"
    by (auto simp: copy_amount_usd_eq_Inr)
  with None show ?thesis by simp
next
  case (Some t)
  from filter_data_converting [OF run Some] obtain dff dff1 rates temp_df where
    f: "apply_filters vendor_cats channels countries cities is_weekend_val is_fraud_val
          (heap w df) = Inr dff"
    and d1: "date_to_datetime dff = Inr dff1"
    and d2: "date_to_datetime (heap w df2) = Inr rates"
    and c: "convert_target dff1 rates t = Inr temp_df"
    and p: "p = nxt w"
    and h: "heap w' = (heap w)(df2 := rates, nxt w := temp_df)"
    by blast
  from h p df2 have hp: "heap w' p = temp_df" and hr: "heap w' df2 = rates" by auto
  from c have "t \<in> set (columns rates)"
    by (auto simp: convert_target_def bnd_eq_Inr select_rate_def split: if_splits)
  with date_to_datetime_Inr(2) [OF d2] have 1: "t \<in> set (columns (heap w df2))" by simp
  have 2: "\<exists>rate. joined_rate (heap w' df2) t (r ''date'') rate
                   \<and> (if isna rate then r ''amount_converted'' = NaN
                       else fmul (r ''amount_usd'') rate = Inr (r ''amount_converted''))"
    if "t \<in> set (columns (heap w df))"
  proof -
    from that apply_filters_Inr(1) [OF f] date_to_datetime_Inr(2) [OF d1]
    have "t \<in> set (columns dff1)" by simp
    from convert_target_rows [OF c this] r show ?thesis unfolding hp hr by blast
  qed
  from 1 2 Some show ?thesis by simp
qed

theorem filter_data_amount_converted_value_witness:
  "filter_data 0 1 None None None None None None (Some ''GBP'') filter_world
     = (Inr 3, snd (filter_data 0 1 None None None None None None (Some ''GBP'')
                     filter_world))
   \<and> 1 < nxt filter_world
   \<and> hd (rows (heap (snd (filter_data 0 1 None None None None None None (Some ''GBP'')
                          filter_world)) 3))
       \<in> set (rows (heap (snd (filter_data 0 1 None None None None None None
                                  (Some ''GBP'') filter_world)) 3))
   \<and> conversion_target (Some ''GBP'') (heap filter_world 1) = Some ''GBP''
   \<and> ''GBP'' \<in> set (columns (heap filter_world 0))
   \<and> (\<exists>rate. joined_rate
          (heap (snd (filter_data 0 1 None None None None None None (Some ''GBP'')
                        filter_world)) 1) ''GBP'' (Stamp 0) rate
        \<and> \<not> isna rate \<and> fmul (Num (1000 / 9)) rate = Inr (Num (800 / 9)))"
proof -
  let ?run = "filter_data 0 1 None None None None None None (Some ''GBP'') filter_world"
  let ?r = "hd (rows (heap (snd ?run) 3))"
  have a: "?run = (Inr 3, snd ?run)" using run_gbp by (simp add: prod_eq_iff)
  have b: "1 < nxt filter_world" by (simp add: filter_world_def)
  from run_gbp_rows have ne: "rows (heap (snd ?run) 3) \<noteq> []" by auto
  then have c: "?r \<in> set (rows (heap (snd ?run) 3))" by simp
  have t: "conversion_target (Some ''GBP'') (heap filter_world 1) = Some ''GBP''"
    by (simp add: filter_eval)
  have g: "''GBP'' \<in> set (columns (heap filter_world 0))" by (simp add: filter_eval)
  from run_gbp_rows ne have v: "?r ''date'' = Stamp 0" "?r ''amount_usd'' = Num (1000 / 9)"
    "?r ''amount_converted'' = Num (800 / 9)"
    by (auto simp: neq_Nil_conv)
  from filter_data_amount_converted_value [OF a b c] g
  obtain rate where j: "joined_rate (heap (snd ?run) 1) ''GBP'' (?r ''date'') rate"
    and m: "if isna rate then ?r ''amount_converted'' = NaN
            else fmul (?r ''amount_usd'') rate = Inr (?r ''amount_converted'')"
    unfolding t by auto
  from m have "\<not> isna rate" "fmul (Num (1000 / 9)) rate = Inr (Num (800 / 9))"
    unfolding v by (auto split: if_splits)
  with j show ?thesis using a b c t g unfolding v by blast
qed

text \<open>
  The claim as it is written fails where the code does not convert although a currency
  other than USD is selected: with an empty rate table there is no rate for any date,
  and the row still gets its USD amount, not not-a-number.
\<close>

theorem filter_data_empty_rates_counterexample:
  "rows (heap filter_world 2) = []
   \<and> fst (filter_data 0 2 None None None None None None (Some ''EUR'') filter_world) = Inr 3
   \<and> hd (rows (heap (snd (filter_data 0 2 None None None None None None (Some ''EUR'')
                          filter_world)) 3)) ''amount_usd'' = Num (1000 / 9)
   \<and> hd (rows (heap (snd (filter_data 0 2 None None None None None None (Some ''EUR'')
                          filter_world)) 3)) ''amount_converted'' = Num (1000 / 9)
   \<and> \<not> (\<exists>rate. joined_rate (heap filter_world 2) ''EUR''
             (hd (rows (heap (snd (filter_data 0 2 None None None None None None
                (Some ''EUR'') filter_world)) 3)) ''date'') rate
          \<and> (if isna rate
              then hd (rows (heap (snd (filter_data 0 2 None None None None None None
                     (Some ''EUR'') filter_world)) 3)) ''amount_converted'' = NaN
              else fmul (hd (rows (heap (snd (filter_data 0 2 None None None None None None
                     (Some ''EUR'') filter_world)) 3)) ''amount_usd'') rate
                   = Inr (hd (rows (heap (snd (filter_data 0 2 None None None None None
                     None (Some ''EUR'') filter_world)) 3)) ''amount_converted'')))"
proof -
  let ?run = "filter_data 0 2 None None None None None None (Some ''EUR'') filter_world"
  let ?r = "hd (rows (heap (snd ?run) 3))"
  have e: "rows (heap filter_world 2) = []" by (simp add: filter_eval)
  from run_eur_empty(2) have v: "?r ''amount_usd'' = Num (1000 / 9)"
    "?r ''amount_converted'' = Num (1000 / 9)"
    by (auto simp: map_eq_Cons_conv)
  have n: "rate = NaN" if "joined_rate (heap filter_world 2) ''EUR'' d rate" for d rate
    using that by (simp add: joined_rate_def e)
  have "\<not> (\<exists>rate. joined_rate (heap filter_world 2) ''EUR'' (?r ''date'') rate
          \<and> (if isna rate then ?r ''amount_converted'' = NaN
              else fmul (?r ''amount_usd'') rate = Inr (?r ''amount_converted'')))"
  proof
    assume "\<exists>rate. joined_rate (heap filter_world 2) ''EUR'' (?r ''date'') rate
          \<and> (if isna rate then ?r ''amount_converted'' = NaN
              else fmul (?r ''amount_usd'') rate = Inr (?r ''amount_converted''))"
    then obtain rate where j: "joined_rate (heap filter_world 2) ''EUR'' (?r ''date'') rate"
      and m: "if isna rate then ?r ''amount_converted'' = NaN
              else fmul (?r ''amount_usd'') rate = Inr (?r ''amount_converted'')"
      by blast
    from n [OF j] m v show False by simp
  qed
  with e run_eur_empty(1) v show ?thesis by blast
qed

subsection \<open>The filter engine and its arguments\<close>

text \<open>
  C2 does not hold of the code. The record table is copied before anything is assigned
  (see \<open>filter_data_frame\<close>: no table but the rate table is ever changed), but line 656
  assigns to the date column of the rate table it was given. Here the rate table holds
  Python dates, a currency other than USD is selected, and after the call the table
  holds timestamps.
\<close>

theorem filter_data_changes_rate_table:
  "fst (filter_data 0 1 None None None None None None (Some ''GBP'') filter_world) = Inr 3
   \<and> map (\<lambda>r. r ''date'') (rows (heap filter_world 1)) = [PyDate 0]
   \<and> map (\<lambda>r. r ''date'')
        (rows (heap (snd (filter_data 0 1 None None None None None None (Some ''GBP'')
                           filter_world)) 1)) = [Stamp 0]
   \<and> heap (snd (filter_data 0 1 None None None None None None (Some ''GBP'')
                  filter_world)) 1 \<noteq> heap filter_world 1
   \<and> heap (snd (filter_data 0 1 None None None None None None (Some ''GBP'')
                  filter_world)) 0 = heap filter_world 0"
proof -
  let ?run = "filter_data 0 1 None None None None None None (Some ''GBP'') filter_world"
  have b: "map (\<lambda>r. r ''date'') (rows (heap filter_world 1)) = [PyDate 0]"
    by (simp add: filter_eval)
  with run_gbp_rates have "heap (snd ?run) 1 \<noteq> heap filter_world 1" by auto
  moreover have "heap (snd ?run) 0 = heap filter_world 0"
    by (rule filter_data_frame [of 0 1 None None None None None None "Some ''GBP''"
          filter_world "fst ?run"]) (simp_all add: filter_world_def)
  ultimately show ?thesis using run_gbp run_gbp_rates b by simp
qed

subsection \<open>The amount in USD\<close>

text \<open>
  C1, with the amount taken into account. Let \<open>r\<close> be a row of the table that the
  preprocessor builds from a table that is not empty. The rate joined to \<open>r\<close> is the cell
  that the rate table holds for the currency of \<open>r\<close> on the date of \<open>r\<close>: the cell of a row
  of that date, or nothing when no row has that date. The rate of \<open>r\<close> is the number in
  that cell; there is none when the currency of \<open>r\<close> is missing or is not a column of the
  rate table, or when the cell holds no number. Then \<open>amount_usd\<close> is the amount divided
  by the rate, and it is not-a-number exactly when the amount is missing, or there is no
  rate, or the rate is zero.
\<close>

theorem convert_to_usd_value:
  assumes run: "preprocess_data df w = (Inr (p, d), w')"
    and ne: "\<not> df_empty (heap w df)"
    and r: "r \<in> set (rows (heap w' p))"
  shows "\<exists>rate.
           (\<forall>cur. r ''currency'' = Str cur \<longrightarrow> joined_rate (heap w' d) cur (r ''date'') rate)
         \<and> r ''amount_usd''
             = usd_amount (cell_number (r ''amount''))
                 (rate_of (heap w' d) (r ''currency'') rate)
         \<and> (r ''amount_usd'' = NaN \<longleftrightarrow>
               cell_number (r ''amount'') = None
               \<or> rate_of (heap w' d) (r ''currency'') rate = None
               \<or> rate_of (heap w' d) (r ''currency'') rate = Some 0)"
proof -
  from preprocess_data_Inr [OF run ne] obtain f1 f2 rt out where
    fl: "flatten_activity f1 = Inr f2"
    and e: "enrich f2 rt = Inr out" and d: "d = nxt w" and p: "p = Suc (nxt w)"
    and h: "heap w' = (heap w)(df := f1, nxt w := rt, Suc (nxt w) := out)"
    by blast
  from h d p have hd: "heap w' d = rt" and hp: "heap w' p = out" by simp_all
  from enrich_Inr [OF e] obtain R m where R: "reset_index rt = Inr R"
    and m: "merge_left f2 R ''date'' = Inr m"
    and bwd: "\<forall>r \<in> set (rows out). \<exists>mr \<in> set (rows m). \<exists>v h wd.
                 convert_to_usd (columns m) (columns rt) mr = Inr v
                 \<and> r = mr(''amount_usd'' := v, ''hour'' := h, ''weekday'' := wd)"
    by blast
  from bwd r hp obtain mr v h' wd where mr: "mr \<in> set (rows m)"
    and v: "convert_to_usd (columns m) (columns rt) mr = Inr v"
    and req: "r = mr(''amount_usd'' := v, ''hour'' := h', ''weekday'' := wd)"
    by blast
  from merge_left_backward [OF m mr] obtain l where l: "l \<in> set (rows f2)"
    and j: "joined R ''date'' (filter (\<lambda>c. c \<noteq> ''date'') (columns R)) l mr"
    by blast
  from req have rc: "r ''currency'' = mr ''currency''" and ra: "r ''amount'' = mr ''amount''"
    and usd: "r ''amount_usd'' = v" by simp_all
  from j have md: "mr ''date'' = l ''date''" by (rule joined_left) simp
  with req have rd: "r ''date'' = l ''date''" by simp
  from flatten_activity_date [OF fl l] have dn: "cell_number (l ''date'') = None" .
  from merge_left_eq_Inr [OF m] have dR: "''date'' \<in> set (columns R)" by simp
  note val = convert_to_usd_Inr [OF v]
  have "\<exists>rate. (\<forall>cur. r ''currency'' = Str cur \<longrightarrow> joined_rate rt cur (r ''date'') rate)
          \<and> v = usd_amount (cell_number (r ''amount'')) (rate_of rt (r ''currency'') rate)"
  proof (cases "\<exists>cur. mr ''currency'' = Str cur \<and> cur \<in> set (columns rt)")
    case False
    then have n: "rate_of rt (mr ''currency'') rate = None" for rate
      by (cases "mr ''currency''") (auto simp: rate_of_def)
    from False have vn: "v = NaN"
      unfolding val by (cases "mr ''currency''") auto
    show ?thesis
    proof (cases "\<exists>cur. mr ''currency'' = Str cur")
      case True
      then obtain cur where c: "mr ''currency'' = Str cur" by blast
      from joined_rate_exists obtain rate where "joined_rate rt cur (r ''date'') rate" by blast
      with c vn n show ?thesis unfolding rc by (intro exI [of _ rate]) simp
    next
      case False
      with vn n show ?thesis unfolding rc by simp
    qed
  next
    case True
    then obtain cur where c: "mr ''currency'' = Str cur" and cin: "cur \<in> set (columns rt)"
      by blast
    from val c cin have v1: "v = usd_amount (cell_number (mr ''amount'')) (cell_number (mr cur))"
      by simp
    have ro: "rate_of rt (mr ''currency'') rate = cell_number rate" for rate
      using c cin by (simp add: rate_of_def)
    show ?thesis
    proof (cases "cur = ''date''")
      case False
      from joined_rate_of_joined [OF R dR j cin False]
      have "joined_rate rt cur (r ''date'') (mr cur)" by (simp add: rd)
      with v1 c show ?thesis unfolding rc ra ro by (intro exI [of _ "mr cur"]) simp
    next
      case True
      from joined_rate_of_date [OF dn] obtain rate where
        jr: "joined_rate rt ''date'' (l ''date'') rate" and rn: "cell_number rate = None"
        by blast
      from v1 True md dn have "v = usd_amount (cell_number (mr ''amount'')) (cell_number rate)"
        by (simp add: rn)
      with jr c True show ?thesis unfolding rc ra ro rd by (intro exI [of _ rate]) simp
    qed
  qed
  then obtain rate where
    1: "\<forall>cur. r ''currency'' = Str cur \<longrightarrow> joined_rate rt cur (r ''date'') rate"
    and 2: "v = usd_amount (cell_number (r ''amount'')) (rate_of rt (r ''currency'') rate)"
    by blast
  from 2 have 3: "v = NaN \<longleftrightarrow> cell_number (r ''amount'') = None
               \<or> rate_of rt (r ''currency'') rate = None
               \<or> rate_of rt (r ''currency'') rate = Some 0"
    by (simp add: usd_amount_NaN)
  from 1 2 3 show ?thesis unfolding hd usd by (intro exI [of _ rate] conjI)
qed

theorem convert_to_usd_value_witness:
  "preprocess_data 0 example_world = (Inr (2, 1), snd (preprocess_data 0 example_world))
   \<and> \<not> df_empty (heap example_world 0)
   \<and> hd (rows (heap (snd (preprocess_data 0 example_world)) 2))
       \<in> set (rows (heap (snd (preprocess_data 0 example_world)) 2))
   \<and> hd (rows (heap (snd (preprocess_data 0 example_world)) 2)) ''currency'' = Str ''EUR''
   \<and> hd (rows (heap (snd (preprocess_data 0 example_world)) 2)) ''amount'' = Num 100
   \<and> hd (rows (heap (snd (preprocess_data 0 example_world)) 2)) ''amount_usd''
       = Num (1000 / 9)
   \<and> (\<exists>rate. joined_rate example_rates ''EUR'' (PyDate 0) rate
        \<and> Num (1000 / 9) = usd_amount (Some 100) (cell_number rate))"
proof -
  let ?run = "preprocess_data 0 example_world"
  let ?r = "hd (rows (heap (snd ?run) 2))"
  have a: "?run = (Inr (2, 1), snd ?run)" using example_run by (simp add: prod_eq_iff)
  have b: "\<not> df_empty (heap example_world 0)"
    by (simp add: example_world_def example_raw_def df_empty_def)
  from example_run_rows have ne: "rows (heap (snd ?run) 2) \<noteq> []" by auto
  then have c: "?r \<in> set (rows (heap (snd ?run) 2))" by simp
  from example_run_rows have v: "?r ''currency'' = Str ''EUR''" "?r ''amount'' = Num 100"
    "?r ''date'' = PyDate 0" "?r ''amount_usd'' = Num (1000 / 9)"
    by (auto simp: map_eq_Cons_conv)
  have e: "rate_of example_rates (Str ''EUR'') rate = cell_number rate" for rate
    by (simp add: rate_of_def example_rates_def)
  from convert_to_usd_value [OF a b c]
  obtain rate where
    1: "\<forall>cur. ?r ''currency'' = Str cur \<longrightarrow>
              joined_rate (heap (snd ?run) 1) cur (?r ''date'') rate"
    and 2: "?r ''amount_usd'' = usd_amount (cell_number (?r ''amount''))
              (rate_of (heap (snd ?run) 1) (?r ''currency'') rate)"
    by blast
  from 1 v have "joined_rate example_rates ''EUR'' (PyDate 0) rate"
    unfolding example_run_rates by simp
  moreover from 2 have "Num (1000 / 9) = usd_amount (Some 100) (cell_number rate)"
    unfolding example_run_rates v e by simp
  ultimately have "\<exists>rate. joined_rate example_rates ''EUR'' (PyDate 0) rate
        \<and> Num (1000 / 9) = usd_amount (Some 100) (cell_number rate)"
    by blast
  with a b c v show ?thesis by (intro conjI)
qed

text \<open>
  A row whose amount is missing has a missing \<open>amount_usd\<close> although the rate table holds
  the rate 0.9 for its currency on its date: the equivalence of the claim fails there.
\<close>

theorem convert_to_usd_missing_amount_counterexample:
  "fst (preprocess_data 0 missing_amount_world) = Inr (2, 1)
   \<and> map (\<lambda>r. (r ''amount'', r ''currency'', r ''date'', r ''amount_usd''))
        (rows (heap (snd (preprocess_data 0 missing_amount_world)) 2))
       = [(NaN, Str ''EUR'', PyDate 0, NaN)]
   \<and> ''EUR'' \<in> set (columns (heap (snd (preprocess_data 0 missing_amount_world)) 1))
   \<and> map (\<lambda>r. (r ''date'', r ''EUR''))
        (rows (heap (snd (preprocess_data 0 missing_amount_world)) 1))
       = [(PyDate 0, Num (9 / 10))]
   \<and> \<not> (hd (rows (heap (snd (preprocess_data 0 missing_amount_world)) 2)) ''amount_usd''
            = NaN \<longleftrightarrow>
          ''EUR'' \<notin> set (columns (heap (snd (preprocess_data 0 missing_amount_world)) 1))
          \<or> cell_number (Num (9 / 10)) = None \<or> cell_number (Num (9 / 10)) = Some 0)"
proof -
  from missing_amount_run(2)
  have "hd (rows (heap (snd (preprocess_data 0 missing_amount_world)) 2)) ''amount_usd'' = NaN"
    by (auto simp: map_eq_Cons_conv)
  with missing_amount_run show ?thesis by (simp add: example_rates_def)
qed


subsection \<open>Records without a well-formed last-hour activity\<close>

text \<open>
  C8. Every record of a raw table that has the last-hour-activity field is kept: the
  preprocessed table has a row that agrees with it on every column of the raw table
  (except the normalised timestamp and the columns the preprocessor computes). When the
  record's activity is not a dictionary, that row holds not-a-number in the five activity
  columns; when it is a dictionary, the row holds the dictionary's own values, so the
  defaults are substituted for the malformed record only.
\<close>

theorem activity_defaults_kept:
  assumes run: "preprocess_data df w = (Inr (p, d), w')"
    and lha: "''last_hour_activity'' \<in> set (columns (heap w df))"
    and l: "l \<in> set (rows (heap w df))"
  shows "\<exists>r \<in> set (rows (heap w' p)).
           (\<forall>c \<in> set (columns (heap w df)).
               c \<notin> {''timestamp'', ''date'', ''amount_usd'', ''hour'', ''weekday''}
               \<longrightarrow> c \<in> set (columns (heap w' p)) \<and> r c = l c)
         \<and> (case l ''last_hour_activity'' of
               Dict x \<Rightarrow>
                 \<forall>k \<in> fst ` set x.
                   k \<notin> {''date'', ''amount_usd'', ''hour'', ''weekday''}
                   \<longrightarrow> k \<in> set (columns (heap w' p)) \<and> r k = dict_row x k
             | _ \<Rightarrow>
                 \<forall>k \<in> set activity_names. k \<in> set (columns (heap w' p)) \<and> r k = NaN)"
proof -
  let ?over = "{''date'', ''amount_usd'', ''hour'', ''weekday''}"
  from lha l have ne: "\<not> df_empty (heap w df)" by (auto simp: df_empty_def)
  from preprocess_data_Inr [OF run ne] obtain f1 f2 rt out where
    t: "floor_timestamp (heap w df) = Inr f1" and fl: "flatten_activity f1 = Inr f2"
    and e: "enrich f2 rt = Inr out" and p: "p = Suc (nxt w)"
    and h: "heap w' = (heap w)(df := f1, nxt w := rt, Suc (nxt w) := out)"
    by blast
  from h p have hp: "heap w' p = out" by simp
  from list_all2_forward [OF floor_timestamp_Inr(2) [OF t] l]
  obtain l1 ts where l1: "l1 \<in> set (rows f1)" and l1_eq: "l1 = l(''timestamp'' := ts)"
    by blast
  note c1 = floor_timestamp_Inr(1) [OF t]
  from flatten_activity_Inr [OF fl] obtain jcols where
    jc: "jcols = columns (json_normalize
                   (map (\<lambda>r. safe_extract (r ''last_hour_activity'')) (rows f1)))"
    and dj: "set (columns f1) \<inter> set jcols = {}"
    and c2: "columns f2 = set_columns ''date'' (columns f1 @ jcols)"
    and r2: "list_all2 (\<lambda>l l2. \<exists>v. cell_number v = None
                                  \<and> l2 = (flat_row jcols l)(''date'' := v)) (rows f1) (rows f2)"
    by blast
  from list_all2_forward [OF r2 l1] obtain l2 dv where l2: "l2 \<in> set (rows f2)"
    and l2_eq: "l2 = (flat_row jcols l1)(''date'' := dv)" by blast
  from enrich_Inr [OF e] obtain R m where m: "merge_left f2 R ''date'' = Inr m"
    and cm: "set (columns m) \<subseteq> set (columns out)"
    and fwd: "\<forall>mr \<in> set (rows m). \<exists>v h wd.
                 mr(''amount_usd'' := v, ''hour'' := h, ''weekday'' := wd) \<in> set (rows out)"
    by blast
  from merge_left_forward [OF m l2] obtain mr where mr: "mr \<in> set (rows m)"
    and j: "joined R ''date'' (filter (\<lambda>c. c \<noteq> ''date'') (columns R)) l2 mr" by blast
  from fwd mr obtain v h' wd where
    r: "mr(''amount_usd'' := v, ''hour'' := h', ''weekday'' := wd) \<in> set (rows out)"
    by blast
  let ?r = "mr(''amount_usd'' := v, ''hour'' := h', ''weekday'' := wd)"
  from merge_left_eq_Inr [OF m] have
    disj: "set (columns f2) \<inter> set (filter (\<lambda>c. c \<noteq> ''date'') (columns R)) = {}"
    and colm: "columns m = columns f2 @ filter (\<lambda>c. c \<noteq> ''date'') (columns R)"
    by simp_all
  have keep: "c \<in> set (columns out) \<and> ?r c = l2 c"
    if "c \<in> set (columns f2)" "c \<notin> {''amount_usd'', ''hour'', ''weekday''}" for c
  proof -
    from that(1) disj have "c \<notin> set (filter (\<lambda>c. c \<noteq> ''date'') (columns R))" by blast
    from joined_left [OF j this] that(2) have "?r c = l2 c" by simp
    moreover from that(1) colm cm have "c \<in> set (columns out)" by auto
    ultimately show ?thesis by blast
  qed
  have in2: "set (columns f1) \<union> set jcols \<subseteq> set (columns f2)"
    unfolding c2 using set_columns_subset [of "columns f1 @ jcols" "''date''"] by simp
  have a1: "c \<in> set (columns out) \<and> ?r c = l c"
    if "c \<in> set (columns (heap w df))"
      "c \<notin> {''timestamp'', ''date'', ''amount_usd'', ''hour'', ''weekday''}" for c
  proof -
    from that(1) c1 have cf: "c \<in> set (columns f1)" by simp
    with dj have "c \<notin> set jcols" by blast
    with that(2) have "l2 c = l c" by (simp add: l2_eq flat_row_def l1_eq)
    with keep [of c] cf in2 that(2) show ?thesis by auto
  qed
  have same: "l1 ''last_hour_activity'' = l ''last_hour_activity''" by (simp add: l1_eq)
  have keys: "fst ` set (dict_items (safe_extract (l ''last_hour_activity''))) \<subseteq> set jcols"
    using json_columns_keys [OF l1] unfolding jc same .
  have a2: "k \<in> set (columns out)
            \<and> ?r k = dict_row (dict_items (safe_extract (l ''last_hour_activity''))) k"
    if "k \<in> fst ` set (dict_items (safe_extract (l ''last_hour_activity'')))"
      "k \<notin> ?over" for k
  proof -
    from that(1) keys have kj: "k \<in> set jcols" by blast
    with that(2) have "l2 k = dict_row (dict_items (safe_extract (l ''last_hour_activity''))) k"
      by (simp add: l2_eq flat_row_def same)
    with keep [of k] kj in2 that(2) show ?thesis by auto
  qed
  have a3: "case l ''last_hour_activity'' of
               Dict x \<Rightarrow>
                 \<forall>k \<in> fst ` set x. k \<notin> ?over
                   \<longrightarrow> k \<in> set (columns out) \<and> ?r k = dict_row x k
             | _ \<Rightarrow> \<forall>k \<in> set activity_names. k \<in> set (columns out) \<and> ?r k = NaN"
  proof (cases "\<exists>x. l ''last_hour_activity'' = Dict x")
    case True
    then obtain x where x: "l ''last_hour_activity'' = Dict x" by blast
    with a2 show ?thesis by simp
  next
    case False
    then have s: "safe_extract (l ''last_hour_activity'') = Dict activity_defaults"
      by (intro safe_extract_malformed) simp
    have "k \<in> set (columns out) \<and> ?r k = NaN" if "k \<in> set activity_names" for k
    proof -
      from that have "k \<notin> ?over" by (auto simp: activity_names_def)
      moreover from that have "k \<in> fst ` set (dict_items (safe_extract (l ''last_hour_activity'')))"
        by (simp add: s activity_defaults_keys)
      ultimately show ?thesis using a2 [of k] by (simp add: s dict_row_defaults)
    qed
    with False show ?thesis by (cases "l ''last_hour_activity''") simp_all
  qed
  have a0: "\<forall>c \<in> set (columns (heap w df)).
               c \<notin> {''timestamp'', ''date'', ''amount_usd'', ''hour'', ''weekday''}
               \<longrightarrow> c \<in> set (columns out) \<and> ?r c = l c"
    by (intro ballI impI, rule a1, assumption+)
  show ?thesis unfolding hp
    by (rule bexI [OF _ r], rule conjI, rule a0, rule a3)
qed

theorem activity_defaults_kept_witness:
  "preprocess_data 0 example_world = (Inr (2, 1), snd (preprocess_data 0 example_world))
   \<and> ''last_hour_activity'' \<in> set (columns (heap example_world 0))
   \<and> hd (rows (heap example_world 0)) \<in> set (rows (heap example_world 0))
   \<and> hd (rows (heap example_world 0)) ''last_hour_activity'' = PyNone
   \<and> (\<exists>r \<in> set (rows (heap (snd (preprocess_data 0 example_world)) 2)).
         r ''amount'' = Num 100 \<and> r ''currency'' = Str ''EUR''
         \<and> r ''last_hour_activity'' = PyNone
         \<and> map r activity_names = [NaN, NaN, NaN, NaN, NaN])
   \<and> map (\<lambda>r. map r activity_names)
         (rows (heap (snd (preprocess_data 0 example_world)) 2))
       = [[NaN, NaN, NaN, NaN, NaN], [Num 3, Num 250, Num 2, Num 1, Num 120]]"
proof -
  let ?run = "preprocess_data 0 example_world"
  let ?l = "hd (rows (heap example_world 0))"
  have a: "?run = (Inr (2, 1), snd ?run)" using example_run by (simp add: prod_eq_iff)
  have b: "''last_hour_activity'' \<in> set (columns (heap example_world 0))"
    by (simp add: example_world_def example_raw_def)
  have c: "?l \<in> set (rows (heap example_world 0))"
    by (simp add: example_world_def example_raw_def)
  have l: "?l ''last_hour_activity'' = PyNone" "?l ''amount'' = Num 100"
    "?l ''currency'' = Str ''EUR''"
    by (simp_all add: example_world_def example_raw_def)
  have cols: "''amount'' \<in> set (columns (heap example_world 0))"
    "''currency'' \<in> set (columns (heap example_world 0))"
    by (simp_all add: example_world_def example_raw_def)
  from activity_defaults_kept [OF a b c]
  obtain r where r: "r \<in> set (rows (heap (snd ?run) 2))"
    and kn: "(\<forall>c \<in> set (columns (heap example_world 0)).
              c \<notin> {''timestamp'', ''date'', ''amount_usd'', ''hour'', ''weekday''}
              \<longrightarrow> c \<in> set (columns (heap (snd ?run) 2)) \<and> r c = ?l c)
         \<and> (case ?l ''last_hour_activity'' of
               Dict x \<Rightarrow>
                 \<forall>k \<in> fst ` set x.
                   k \<notin> {''date'', ''amount_usd'', ''hour'', ''weekday''}
                   \<longrightarrow> k \<in> set (columns (heap (snd ?run) 2)) \<and> r k = dict_row x k
             | _ \<Rightarrow>
                 \<forall>k \<in> set activity_names.
                   k \<in> set (columns (heap (snd ?run) 2)) \<and> r k = NaN)" ..
  from kn have k: "\<forall>c \<in> set (columns (heap example_world 0)).
              c \<notin> {''timestamp'', ''date'', ''amount_usd'', ''hour'', ''weekday''}
              \<longrightarrow> c \<in> set (columns (heap (snd ?run) 2)) \<and> r c = ?l c" ..
  from kn have "case ?l ''last_hour_activity'' of
               Dict x \<Rightarrow>
                 \<forall>k \<in> fst ` set x.
                   k \<notin> {''date'', ''amount_usd'', ''hour'', ''weekday''}
                   \<longrightarrow> k \<in> set (columns (heap (snd ?run) 2)) \<and> r k = dict_row x k
             | _ \<Rightarrow>
                 \<forall>k \<in> set activity_names.
                   k \<in> set (columns (heap (snd ?run) 2)) \<and> r k = NaN" ..
  then have n: "\<forall>k \<in> set activity_names.
                   k \<in> set (columns (heap (snd ?run) 2)) \<and> r k = NaN"
    by (simp only: l(1) cell.case)
  have o: "''amount'' \<notin> {''timestamp'', ''date'', ''amount_usd'', ''hour'', ''weekday''}"
    "''currency'' \<notin> {''timestamp'', ''date'', ''amount_usd'', ''hour'', ''weekday''}"
    "''last_hour_activity'' \<notin> {''timestamp'', ''date'', ''amount_usd'', ''hour'', ''weekday''}"
    by simp_all
  from k [rule_format, OF cols(1) o(1)] k [rule_format, OF cols(2) o(2)]
    k [rule_format, OF b o(3)] l
  have v: "r ''amount'' = Num 100" "r ''currency'' = Str ''EUR''"
    "r ''last_hour_activity'' = PyNone"
    by simp_all
  from n have m: "map r activity_names = [NaN, NaN, NaN, NaN, NaN]"
    by (simp add: activity_names_def)
  from r v m have "\<exists>r \<in> set (rows (heap (snd ?run) 2)).
         r ''amount'' = Num 100 \<and> r ''currency'' = Str ''EUR''
         \<and> r ''last_hour_activity'' = PyNone
         \<and> map r activity_names = [NaN, NaN, NaN, NaN, NaN]"
    by (intro bexI [of _ r] conjI)
  with a b c l(1) example_run_activity show ?thesis by (intro conjI)
qed

subsection \<open>Determinism and effects of the preprocessor\<close>




end
